theory Spec2Isabelle
  imports Main
begin

text \<open>
  A model of the task-management API: the handlers of \<open>/auth\<close> (register, login,
  request-verification, verify) and of \<open>/tasks\<close> (list, create, update, delete),
  the authentication and validation middleware, the user context and the error handler of
  the application. Each handler is a function from the state of the application to a
  response (or a thrown error) and the state afterwards. The clock, the random token and
  the failures of outside calls are arguments; the libraries the code calls (crypto,
  hono/jwt, bcrypt, zod, TypeORM) are modelled by what the handlers rely on.
\<close>

section \<open>The JavaScript values the handlers compute with\<close>

text \<open>
  A string is a list of code units below 256. A query parameter, a header or a body field
  that may be absent is a \<open>string option\<close>, \<open>None\<close> standing for \<open>undefined\<close>.
  A Number is a double. The Numbers the handlers compute are integers or not finite:
  \<open>Num n\<close> is the double whose value is the integer n (n is below \<open>2^53\<close> in size
  or the result of a rounding), and minus zero is not told from zero (both are falsy and
  both print as 0). The time value of a Date is an \<open>int option\<close>, \<open>None\<close>
  standing for \<open>NaN\<close>.
\<close>

datatype number = NaN | Num int | PosInfinity | NegInfinity

fun bitLength :: "nat \<Rightarrow> nat" where
  "bitLength n = (if n = 0 then 0 else Suc (bitLength (n div 2)))"

declare bitLength.simps [simp del]

definition roundMagnitude :: "nat \<Rightarrow> nat option" where
  \<comment> \<open>the double nearest to the integer m, ties to the even significand of 53 bits;
      None is Infinity\<close>
  "roundMagnitude m =
     (if m < 9007199254740992 then Some m
      else
        (let e = bitLength m - 53;
             q = m div 2 ^ e;
             r = m mod 2 ^ e;
             half = 2 ^ (e - 1);
             q' = (if half < r \<or> (r = half \<and> odd q) then q + 1 else q)
         in if 2 ^ 1024 \<le> q' * 2 ^ e then None else Some (q' * 2 ^ e)))"

definition roundDouble :: "int \<Rightarrow> number" where
  \<comment> \<open>the Number for an integer that a computation yields exactly\<close>
  "roundDouble n =
     (case roundMagnitude (nat \<bar>n\<bar>) of
        None \<Rightarrow> if n < 0 then NegInfinity else PosInfinity
      | Some v \<Rightarrow> Num (if n < 0 then - int v else int v))"

definition templateString :: "string option \<Rightarrow> string" where
  \<comment> \<open>what a template literal writes for a string that may be undefined\<close>
  "templateString v = (case v of None \<Rightarrow> ''undefined'' | Some s \<Rightarrow> s)"

definition isWhiteSpace :: "char \<Rightarrow> bool" where
  \<comment> \<open>TAB, LF, VT, FF, CR, SP and NBSP: the white space of parseInt below code unit 256\<close>
  "isWhiteSpace c = (of_char c \<in> {9, 10, 11, 12, 13, 32, 160 :: nat})"

definition digitValue :: "char \<Rightarrow> nat option" where
  "digitValue c =
     (let n = (of_char c :: nat) in
      if 48 \<le> n \<and> n \<le> 57 then Some (n - 48)
      else if 97 \<le> n \<and> n \<le> 122 then Some (n - 87)
      else if 65 \<le> n \<and> n \<le> 90 then Some (n - 55)
      else None)"

definition radixDigit :: "nat \<Rightarrow> char \<Rightarrow> nat option" where
  "radixDigit R c =
     (case digitValue c of None \<Rightarrow> None | Some d \<Rightarrow> if d < R then Some d else None)"

fun digitsValue :: "nat \<Rightarrow> nat \<Rightarrow> string \<Rightarrow> nat" where
  \<comment> \<open>the value of the longest prefix of radix-R digits, continuing from acc\<close>
  "digitsValue R acc [] = acc"
| "digitsValue R acc (c # cs) =
     (case radixDigit R c of None \<Rightarrow> acc | Some d \<Rightarrow> digitsValue R (acc * R + d) cs)"

definition parseIntString :: "string \<Rightarrow> number" where
  \<comment> \<open>parseInt(s) with no radix argument: leading white space, a sign, a 0x prefix,
      then the longest run of digits, whose value is rounded to a double; NaN when there
      is no digit\<close>
  "parseIntString inputString =
     (let S = dropWhile isWhiteSpace inputString;
          sign = (if take 1 S = ''-'' then - 1 else 1 :: int);
          S1 = (if take 1 S = ''-'' \<or> take 1 S = ''+'' then drop 1 S else S);
          hex = (take 2 S1 = ''0x'' \<or> take 2 S1 = ''0X'');
          R = (if hex then 16 else 10 :: nat);
          S2 = (if hex then drop 2 S1 else S1)
      in case S2 of
           [] \<Rightarrow> NaN
         | c # _ \<Rightarrow>
             (case radixDigit R c of
                None \<Rightarrow> NaN
              | Some _ \<Rightarrow> roundDouble (sign * int (digitsValue R 0 S2))))"

definition parseInt :: "string option \<Rightarrow> number" where
  \<comment> \<open>the argument is converted to a string first: undefined reads "undefined"\<close>
  "parseInt v = parseIntString (templateString v)"

definition digitChar :: "nat \<Rightarrow> char" where
  \<comment> \<open>the character of a decimal digit\<close>
  "digitChar d =
     (if d = 0 then CHR ''0'' else if d = 1 then CHR ''1'' else if d = 2 then CHR ''2''
      else if d = 3 then CHR ''3'' else if d = 4 then CHR ''4'' else if d = 5 then CHR ''5''
      else if d = 6 then CHR ''6'' else if d = 7 then CHR ''7'' else if d = 8 then CHR ''8''
      else CHR ''9'')"

definition decimalDigit :: "char \<Rightarrow> bool" where
  \<comment> \<open>one of the characters 0 to 9\<close>
  "decimalDigit c = (48 \<le> (of_char c :: nat) \<and> (of_char c :: nat) \<le> 57)"

fun natToDigits :: "nat \<Rightarrow> string" where
  "natToDigits n =
     (if n < 10 then [digitChar n] else natToDigits (n div 10) @ [digitChar (n mod 10)])"

declare natToDigits.simps [simp del]

definition numberToString :: "int \<Rightarrow> string" where
  \<comment> \<open>what a template literal writes for an integer Number below 2^53 in size, such as
      the time value of a Date\<close>
  "numberToString n = (if n < 0 then ''-'' @ natToDigits (nat (- n)) else natToDigits (nat n))"

text \<open>
  A Number in general is written with the fewest decimal digits that read back as the
  same double (of several such, the nearest): the digits \<open>s\<close>, \<open>k\<close> of them,
  and the position \<open>n\<close> with value \<open>s * 10^(n - k)\<close>. Up to \<open>n = 21\<close> the
  digits are followed by zeros, beyond that the exponent is written out. Below
  \<open>2^53\<close> the digits are those of the integer itself.
\<close>

definition decimalCandidates :: "nat \<Rightarrow> nat \<Rightarrow> (nat \<times> nat \<times> nat) list" where
  \<comment> \<open>the triples (s, n, s * 10^(n - k)) of k digits that round to the double m\<close>
  "decimalCandidates m k =
     (let d = length (natToDigits m)
      in [(s, n, s * 10 ^ (n - k)).
            n \<leftarrow> [d, d + 1],
            s \<leftarrow> [m div 10 ^ (n - k), m div 10 ^ (n - k) + 1],
            k \<le> n \<and> 10 ^ (k - 1) \<le> s \<and> s < 10 ^ k \<and>
            roundMagnitude (s * 10 ^ (n - k)) = Some m])"

definition nearer :: "nat \<Rightarrow> nat \<times> nat \<times> nat \<Rightarrow> nat \<times> nat \<times> nat \<Rightarrow> nat \<times> nat \<times> nat" where
  \<comment> \<open>of two candidates the one nearer to m; at equal distance the one with even s\<close>
  "nearer m c1 c2 =
     (let d1 = \<bar>int (snd (snd c1)) - int m\<bar>; d2 = \<bar>int (snd (snd c2)) - int m\<bar>
      in if d2 < d1 \<or> (d2 = d1 \<and> even (fst c2)) then c2 else c1)"

definition shortestDecimal :: "nat \<Rightarrow> nat \<times> nat" where
  \<comment> \<open>the digits s and the position n for the double m\<close>
  "shortestDecimal m =
     (if m < 9007199254740992 then (m, length (natToDigits m))
      else
        (case find (\<lambda>k. decimalCandidates m k \<noteq> [])
                [1, 2, 3, 4, 5, 6, 7, 8, 9, 10, 11, 12, 13, 14, 15, 16, 17] of
           None \<Rightarrow> (m, length (natToDigits m))
         | Some k \<Rightarrow>
             (case decimalCandidates m k of
                [] \<Rightarrow> (m, length (natToDigits m))
              | c # cs \<Rightarrow>
                  (let best = foldl (nearer m) c cs in (fst best, fst (snd best))))))"

definition magnitudeText :: "nat \<Rightarrow> string" where
  "magnitudeText m =
     (let (s, n) = shortestDecimal m;
          digits = natToDigits s;
          k = length digits
      in if n \<le> 21 then digits @ replicate (n - k) CHR ''0''
         else (if k = 1 then digits else take 1 digits @ ''.'' @ drop 1 digits)
              @ ''e+'' @ natToDigits (n - 1))"

definition printedMagnitude :: "nat \<Rightarrow> nat option" where
  \<comment> \<open>the integer that the text of the double m reads as, when the text has no
      exponent\<close>
  "printedMagnitude m =
     (let (s, n) = shortestDecimal m;
          k = length (natToDigits s)
      in if n \<le> 21 then Some (s * 10 ^ (n - k)) else None)"

definition numberTemplate :: "number \<Rightarrow> string" where
  \<comment> \<open>what a template literal, or the text of a query, writes for a Number\<close>
  "numberTemplate x =
     (case x of
        NaN \<Rightarrow> ''NaN''
      | PosInfinity \<Rightarrow> ''Infinity''
      | NegInfinity \<Rightarrow> ''-Infinity''
      | Num i \<Rightarrow> if i < 0 then ''-'' @ magnitudeText (nat (- i)) else magnitudeText (nat i))"

definition newDate :: "number \<Rightarrow> int option" where
  \<comment> \<open>new Date(t): the time value, or NaN (an invalid Date) when t is not finite or is
      beyond 8.64e15 ms\<close>
  "newDate t =
     (case t of
        Num n \<Rightarrow> if \<bar>n\<bar> \<le> 8640000000000000 then Some n else None
      | _ \<Rightarrow> None)"

definition getTime :: "int option \<Rightarrow> int option" where
  "getTime d = d"

definition jsMinus :: "int option \<Rightarrow> int option \<Rightarrow> int option" where
  "jsMinus a b =
     (case a of None \<Rightarrow> None | Some x \<Rightarrow> (case b of None \<Rightarrow> None | Some y \<Rightarrow> Some (x - y)))"

definition jsGreater :: "int option \<Rightarrow> int \<Rightarrow> bool" where
  \<comment> \<open>a > b: false when a is NaN\<close>
  "jsGreater a b = (case a of None \<Rightarrow> False | Some x \<Rightarrow> x > b)"

definition jsLessEq :: "int option \<Rightarrow> int \<Rightarrow> bool" where
  \<comment> \<open>a <= b: false when a is NaN\<close>
  "jsLessEq a b = (case a of None \<Rightarrow> False | Some x \<Rightarrow> x \<le> b)"

definition numberOr :: "number \<Rightarrow> number \<Rightarrow> number" where
  \<comment> \<open>a || b on Numbers: b when a is NaN or 0\<close>
  "numberOr a b = (if a = NaN \<or> a = Num 0 then b else a)"

definition numberSign :: "number \<Rightarrow> int" where
  "numberSign x =
     (case x of NaN \<Rightarrow> 0 | Num i \<Rightarrow> sgn i | PosInfinity \<Rightarrow> 1 | NegInfinity \<Rightarrow> - 1)"

fun numberMinus :: "number \<Rightarrow> number \<Rightarrow> number" where
  \<comment> \<open>a - b: the exact difference, rounded\<close>
  "numberMinus NaN b = NaN"
| "numberMinus a NaN = NaN"
| "numberMinus (Num x) (Num y) = roundDouble (x - y)"
| "numberMinus (Num x) PosInfinity = NegInfinity"
| "numberMinus (Num x) NegInfinity = PosInfinity"
| "numberMinus PosInfinity PosInfinity = NaN"
| "numberMinus PosInfinity b = PosInfinity"
| "numberMinus NegInfinity NegInfinity = NaN"
| "numberMinus NegInfinity b = NegInfinity"

definition numberTimes :: "number \<Rightarrow> number \<Rightarrow> number" where
  \<comment> \<open>a * b: the exact product, rounded; Infinity times 0 is NaN\<close>
  "numberTimes a b =
     (if a = NaN \<or> b = NaN then NaN
      else
        case (a, b) of
          (Num x, Num y) \<Rightarrow> roundDouble (x * y)
        | _ \<Rightarrow>
            (let sg = numberSign a * numberSign b
             in if sg = 0 then NaN else if 0 < sg then PosInfinity else NegInfinity))"



section \<open>Errors and configuration\<close>

text \<open>
  The calls to the outside that a handler makes and that may fail for reasons of their
  own (the database, the request body, the libraries). Which of them fail in a run is a
  parameter \<open>fails\<close> of the handlers that make them.
\<close>

datatype op =
    Connect | StartTransaction | ReqJson | BcryptHash | SaveUser | CommitTransaction
  | JwtSign | SaveRefreshToken

datatype error =
    TypeError string
  | JsError string
  | JwtTokenInvalid
  | JwtTokenExpired
  | JwtTokenSignatureMismatched
  | TransactionNotStartedError
  | QueryFailedError string
  | OpFailed op
  | ZodError

record env =
  JWT_SECRET :: "string option"
  APP_URL :: "string option"

type_synonym hmac = "string \<Rightarrow> string \<Rightarrow> string"

definition hashHmac :: "hmac \<Rightarrow> env \<Rightarrow> string \<Rightarrow> error + string" where
  \<comment> \<open>crypto.createHmac("sha256", process.env.JWT_SECRET).update(data).digest("hex");
      the keyed hash itself is the parameter hm, and createHmac throws on a missing key\<close>
  "hashHmac hm e data =
     (case JWT_SECRET e of
        None \<Rightarrow> Inl (TypeError ''The key argument must be of type string'')
      | Some secret \<Rightarrow> Inr (hm secret data))"

section \<open>Entities and the store\<close>

text \<open>
  The three entities of \<open>models/\<close>. An id is \<open>None\<close> until the store generates
  it on the first save. A relation to a user is kept as that user's id, as the foreign-key
  column of the table does; \<open>None\<close> is a null relation. Dates are milliseconds
  since the epoch. \<open>t_completed = None\<close> is the JavaScript value undefined.
\<close>

record user =
  u_id :: "int option"
  u_firstName :: string
  u_lastName :: string
  u_email :: string
  u_password :: string
  u_emailVerifiedAt :: "int option"

record task =
  t_id :: "int option"
  t_title :: string
  t_description :: string
  t_completed :: "bool option"
  t_user :: "int option"
  t_createdAt :: int
  t_updatedAt :: "int option"

record refresh_token =
  r_id :: "int option"
  r_token :: string
  r_user :: "int option"
  r_expiredAt :: int
  r_createdAt :: int

record store =
  users :: "user list"
  tasks :: "task list"
  refreshTokens :: "refresh_token list"
  userSeq :: int
  taskSeq :: int
  refreshTokenSeq :: int

text \<open>
  The state one request runs in: the database, the module variable \<open>currentUser\<close> of
  the user context, and the mails handed to the transport (recipient, subject, text).
  One request runs from its first middleware to its response without another request in
  between; interleaved requests are not part of this model.
\<close>

record app =
  db :: store
  currentUser :: "user option"
  outbox :: "(string \<times> string \<times> string) list"

definition setUser :: "user option \<Rightarrow> app \<Rightarrow> app" where
  "setUser u a = a\<lparr>currentUser := u\<rparr>"

definition getUser :: "app \<Rightarrow> user option" where
  "getUser a = currentUser a"

definition ownerId :: "user option \<Rightarrow> int option" where
  \<comment> \<open>the foreign key written for a relation set to this user (or to null)\<close>
  "ownerId u = (case u of None \<Rightarrow> None | Some x \<Rightarrow> u_id x)"

subsection \<open>The entity manager\<close>

text \<open>
  The operations of TypeORM's EntityManager that the handlers call, on the lists above.
  In find options a criterion whose value is null or undefined is skipped, so
  \<open>{email, emailVerifiedAt: null}\<close> selects by email alone and \<open>{id, user: null}\<close>
  by id alone. A criterion that is a user selects the rows whose foreign key is that
  user's id. An id criterion that is not a finite number (NaN, Infinity) makes the query
  fail: the driver writes it into the query as a word that the database does not know.
\<close>

record user_where =
  w_email :: "string option"
  w_emailVerifiedAt :: "int option"

definition userMatches :: "user_where \<Rightarrow> user \<Rightarrow> bool" where
  "userMatches w u =
     ((case w_email w of None \<Rightarrow> True | Some e \<Rightarrow> u_email u = e) \<and>
      (case w_emailVerifiedAt w of None \<Rightarrow> True | Some t \<Rightarrow> u_emailVerifiedAt u = Some t))"

definition findOneByUser :: "store \<Rightarrow> user_where \<Rightarrow> user option" where
  "findOneByUser s w = find (userMatches w) (users s)"

definition ownedBy :: "user option \<Rightarrow> task \<Rightarrow> bool" where
  "ownedBy u r = (case u of None \<Rightarrow> True | Some x \<Rightarrow> t_user r = u_id x)"

definition taskMatches :: "int \<Rightarrow> user option \<Rightarrow> task \<Rightarrow> bool" where
  "taskMatches i u r = (t_id r = Some i \<and> ownedBy u r)"

definition findOneByTask :: "store \<Rightarrow> number \<Rightarrow> user option \<Rightarrow> error + task option" where
  \<comment> \<open>findOneBy(Task, {id: taskId, user})\<close>
  "findOneByTask s taskId u =
     (case taskId of
        Num i \<Rightarrow> Inr (find (taskMatches i u) (tasks s))
      | _ \<Rightarrow> Inl (QueryFailedError ''ER_BAD_FIELD_ERROR''))"

record find_options =
  fo_user :: "user option"
  fo_take :: number
  fo_skip :: number

definition limitValue :: "number \<Rightarrow> nat option" where
  \<comment> \<open>the count that the database reads where the query text has LIMIT or OFFSET
      followed by this Number: an integer from 0 to 2^64 - 1 written without exponent;
      None when the database refuses the text\<close>
  "limitValue x =
     (case x of
        Num n \<Rightarrow>
          if n < 0 then None
          else (case printedMagnitude (nat n) of
                  None \<Rightarrow> None
                | Some v \<Rightarrow> if v < 18446744073709551616 then Some v else None)
      | _ \<Rightarrow> None)"

definition findTasks :: "store \<Rightarrow> find_options \<Rightarrow> error + task list" where
  \<comment> \<open>find(Task, {where: {user}, take, skip, order: {createdAt: "DESC"}}); the query
      fails on a limit or offset that is negative, not finite or too large\<close>
  "findTasks s q =
     (case (limitValue (fo_take q), limitValue (fo_skip q)) of
        (Some limit, Some offset) \<Rightarrow>
          Inr (take limit (drop offset
                 (sort_key (\<lambda>r. - t_createdAt r) (filter (ownedBy (fo_user q)) (tasks s)))))
      | _ \<Rightarrow> Inl (QueryFailedError ''ER_PARSE_ERROR''))"

definition mergeTask :: "task \<Rightarrow> task \<Rightarrow> task" where
  \<comment> \<open>the row after save(entity) of an entity that has a row: save skips the columns the
      entity holds as undefined, so an undefined \<open>completed\<close> keeps the row's value\<close>
  "mergeTask row entity =
     entity\<lparr>t_completed :=
       (case t_completed entity of None \<Rightarrow> t_completed row | Some b \<Rightarrow> Some b)\<rparr>"

definition saveTask :: "task \<Rightarrow> store \<Rightarrow> task \<times> store" where
  \<comment> \<open>save(task): an insert with a generated id for an entity without a row, an update of
      the row otherwise; the result is the entity as the caller holds it afterwards\<close>
  "saveTask entity s =
     (if t_id entity \<noteq> None \<and> (\<exists>r \<in> set (tasks s). t_id r = t_id entity)
      then (entity,
            s\<lparr>tasks := map (\<lambda>r. if t_id r = t_id entity then mergeTask r entity else r) (tasks s)\<rparr>)
      else (let entity' = (if t_id entity = None then entity\<lparr>t_id := Some (taskSeq s)\<rparr> else entity)
            in (entity', s\<lparr>tasks := tasks s @ [entity'], taskSeq := taskSeq s + 1\<rparr>)))"

definition removeTask :: "task \<Rightarrow> store \<Rightarrow> store" where
  "removeTask entity s = s\<lparr>tasks := filter (\<lambda>r. t_id r \<noteq> t_id entity) (tasks s)\<rparr>"

definition updateUser :: "user \<Rightarrow> store \<Rightarrow> store" where
  \<comment> \<open>save(user) of a user read from the store\<close>
  "updateUser entity s =
     s\<lparr>users := map (\<lambda>r. if u_id r = u_id entity then entity else r) (users s)\<rparr>"

definition insertRefreshToken :: "refresh_token \<Rightarrow> store \<Rightarrow> refresh_token \<times> store" where
  "insertRefreshToken entity s =
     (let entity' = entity\<lparr>r_id := Some (refreshTokenSeq s)\<rparr>
      in (entity', s\<lparr>refreshTokens := refreshTokens s @ [entity'],
                     refreshTokenSeq := refreshTokenSeq s + 1\<rparr>))"

section \<open>Session tokens\<close>

text \<open>
  The functions of the libraries that the code calls are parameters: the hex HMAC-SHA256
  of \<open>crypto\<close>, the HS256 signature and the encoding of \<open>hono/jwt\<close>, bcrypt, and the
  e-mail pattern of zod.
\<close>

record lib =
  hmacSha256Hex :: hmac
  jwtHs256 :: hmac
  bcryptHash :: "string \<Rightarrow> nat \<Rightarrow> string"
  bcryptCompare :: "string \<Rightarrow> string \<Rightarrow> bool"
  zodEmail :: "string \<Rightarrow> bool"

record jwt_payload =
  userId :: "int option"
  firstName :: string
  lastName :: string
  email :: string
  exp :: int

text \<open>
  A token is represented by its parts: the text that was signed (the encoded header and
  payload), the payload that text decodes to, and the signature. A token text that does
  not decode into these parts is \<open>None\<close>.
\<close>

record jwt =
  j_payload :: jwt_payload
  j_signed :: string
  j_signature :: string

definition sign :: "lib \<Rightarrow> (jwt_payload \<Rightarrow> string) \<Rightarrow> jwt_payload \<Rightarrow> string option \<Rightarrow> error + jwt" where
  \<comment> \<open>sign(payload, secret) of hono/jwt; it fails when there is no secret\<close>
  "sign l enc p secret =
     (case secret of
        None \<Rightarrow> Inl (TypeError ''The key argument must be of type string'')
      | Some k \<Rightarrow> Inr \<lparr>j_payload = p, j_signed = enc p, j_signature = jwtHs256 l k (enc p)\<rparr>)"

definition verify :: "lib \<Rightarrow> int \<Rightarrow> jwt option \<Rightarrow> string option \<Rightarrow> error + jwt_payload" where
  \<comment> \<open>verify(token, secret) of hono/jwt on a token text, at clock time now (ms): the
      expiry is checked against the time in whole seconds, then the signature\<close>
  "verify l now token secret =
     (case token of
        None \<Rightarrow> Inl JwtTokenInvalid
      | Some t \<Rightarrow>
          if exp (j_payload t) \<noteq> 0 \<and> exp (j_payload t) \<le> now div 1000 then Inl JwtTokenExpired
          else (case secret of
                  None \<Rightarrow> Inl (TypeError ''The key argument must be of type string'')
                | Some k \<Rightarrow>
                    if j_signature t \<noteq> jwtHs256 l k (j_signed t)
                    then Inl JwtTokenSignatureMismatched
                    else Inr (j_payload t)))"

definition addDays :: "int \<Rightarrow> int \<Rightarrow> int" where
  \<comment> \<open>Modelled from the spec: utils/date is not among the sources; the spec gives a
      refresh token the expiry "creation + 1 day"\<close>
  "addDays d n = d + n * 86400000"

datatype body =
    Message string
  | Status string
  | MessageData string jwt string
  | StatusTask string task
  | StatusTasks string "task list"

datatype response = Json body nat | Raw error nat

type_synonym 'a outcome = "(error + 'a) \<times> app"

definition generateUserToken ::
  "lib \<Rightarrow> (jwt_payload \<Rightarrow> string) \<Rightarrow> env \<Rightarrow> (op \<Rightarrow> bool) \<Rightarrow> int \<Rightarrow> string \<Rightarrow> user \<Rightarrow> app
     \<Rightarrow> (jwt \<times> string) outcome" where
  \<comment> \<open>now is Date.now(), uuid is what randomUUID() draws, fails tells which outside call
      fails\<close>
  "generateUserToken l enc e fails now uuid u a =
     (if fails JwtSign then (Inl (OpFailed JwtSign), a)
      else
        case sign l enc
               \<lparr>userId = u_id u, firstName = u_firstName u, lastName = u_lastName u,
                email = u_email u, exp = now div 1000 + 60 * 60\<rparr>
               (JWT_SECRET e) of
          Inl err \<Rightarrow> (Inl err, a)
        | Inr token \<Rightarrow>
            (let refreshToken =
                   \<lparr>r_id = None, r_token = uuid, r_user = u_id u,
                    r_expiredAt = addDays now 1, r_createdAt = now\<rparr>
             in if fails SaveRefreshToken then (Inl (OpFailed SaveRefreshToken), a)
                else (Inr (token, r_token refreshToken),
                      a\<lparr>db := snd (insertRefreshToken refreshToken (db a))\<rparr>)))"

section \<open>The handlers of /auth\<close>

subsection \<open>POST /auth/register\<close>

text \<open>
  The query runner of one registration. A user saved through it is visible in the table
  only after the commit; \<open>rollbackTransaction\<close> throws when no transaction is
  active, as TypeORM's query runners do. The unique index on \<open>email\<close> makes the
  insert of a second user with the same email fail.
\<close>

record query_runner =
  isTransactionActive :: bool
  isReleased :: bool
  uncommitted :: "user list"

definition createQueryRunner :: query_runner where
  "createQueryRunner = \<lparr>isTransactionActive = False, isReleased = False, uncommitted = []\<rparr>"

type_synonym 'a tx_outcome = "(error + 'a) \<times> app \<times> query_runner"

definition startTransaction :: "(op \<Rightarrow> bool) \<Rightarrow> app \<Rightarrow> query_runner \<Rightarrow> unit tx_outcome" where
  "startTransaction fails a qr =
     (if fails StartTransaction then (Inl (OpFailed StartTransaction), a, qr)
      else (Inr (), a, qr\<lparr>isTransactionActive := True\<rparr>))"

definition saveUserInTransaction ::
  "(op \<Rightarrow> bool) \<Rightarrow> user \<Rightarrow> app \<Rightarrow> query_runner \<Rightarrow> user tx_outcome" where
  "saveUserInTransaction fails u a qr =
     (if fails SaveUser then (Inl (OpFailed SaveUser), a, qr)
      else if u_email u \<in> u_email ` set (users (db a) @ uncommitted qr)
      then (Inl (QueryFailedError ''ER_DUP_ENTRY''), a, qr)
      else (let u' = u\<lparr>u_id := Some (userSeq (db a))\<rparr>
            in (Inr u', a\<lparr>db := (db a)\<lparr>userSeq := userSeq (db a) + 1\<rparr>\<rparr>,
                qr\<lparr>uncommitted := uncommitted qr @ [u']\<rparr>)))"

definition commitTransaction :: "(op \<Rightarrow> bool) \<Rightarrow> app \<Rightarrow> query_runner \<Rightarrow> unit tx_outcome" where
  "commitTransaction fails a qr =
     (if \<not> isTransactionActive qr then (Inl TransactionNotStartedError, a, qr)
      else if fails CommitTransaction then (Inl (OpFailed CommitTransaction), a, qr)
      else (Inr (), a\<lparr>db := (db a)\<lparr>users := users (db a) @ uncommitted qr\<rparr>\<rparr>,
            qr\<lparr>isTransactionActive := False, uncommitted := []\<rparr>))"

definition rollbackTransaction :: "app \<Rightarrow> query_runner \<Rightarrow> unit tx_outcome" where
  "rollbackTransaction a qr =
     (if \<not> isTransactionActive qr then (Inl TransactionNotStartedError, a, qr)
      else (Inr (), a, qr\<lparr>isTransactionActive := False, uncommitted := []\<rparr>))"

definition release :: "query_runner \<Rightarrow> query_runner" where
  "release qr = qr\<lparr>isReleased := True\<rparr>"

definition registerTry ::
  "lib \<Rightarrow> (jwt_payload \<Rightarrow> string) \<Rightarrow> env \<Rightarrow> (op \<Rightarrow> bool) \<Rightarrow> int \<Rightarrow> string
     \<Rightarrow> string \<Rightarrow> string \<Rightarrow> string \<Rightarrow> string \<Rightarrow> app \<Rightarrow> query_runner \<Rightarrow> response tx_outcome" where
  \<comment> \<open>the try block of the handler; the four strings are the fields of the payload\<close>
  "registerTry l enc e fails now uuid pFirstName pLastName pEmail pPassword a qr =
     (if fails Connect then (Inl (OpFailed Connect), a, qr)
      else
        case startTransaction fails a qr of
          (Inl err, a1, qr1) \<Rightarrow> (Inl err, a1, qr1)
        | (Inr _, a1, qr1) \<Rightarrow>
            if fails ReqJson then (Inl (OpFailed ReqJson), a1, qr1)
            else if fails BcryptHash then (Inl (OpFailed BcryptHash), a1, qr1)
            else
              (let u = \<lparr>u_id = None, u_firstName = pFirstName, u_lastName = pLastName,
                        u_email = pEmail, u_password = bcryptHash l pPassword 12,
                        u_emailVerifiedAt = None\<rparr>
               in case saveUserInTransaction fails u a1 qr1 of
                    (Inl err, a2, qr2) \<Rightarrow> (Inl err, a2, qr2)
                  | (Inr u', a2, qr2) \<Rightarrow>
                      (case commitTransaction fails a2 qr2 of
                         (Inl err, a3, qr3) \<Rightarrow> (Inl err, a3, qr3)
                       | (Inr _, a3, qr3) \<Rightarrow>
                           (case generateUserToken l enc e fails now uuid u' a3 of
                              (Inl err, a4) \<Rightarrow> (Inl err, a4, qr3)
                            | (Inr (token, refreshToken), a4) \<Rightarrow>
                                (Inr (Json (MessageData ''Successfully registration user''
                                         token refreshToken) 200), a4, qr3)))))"

definition register ::
  "lib \<Rightarrow> (jwt_payload \<Rightarrow> string) \<Rightarrow> env \<Rightarrow> (op \<Rightarrow> bool) \<Rightarrow> int \<Rightarrow> string
     \<Rightarrow> string \<Rightarrow> string \<Rightarrow> string \<Rightarrow> string \<Rightarrow> app \<Rightarrow> response tx_outcome" where
  \<comment> \<open>try { ... } catch (error) { rollbackTransaction(); throw error } finally { release() }\<close>
  "register l enc e fails now uuid pFirstName pLastName pEmail pPassword a =
     (case registerTry l enc e fails now uuid pFirstName pLastName pEmail pPassword a
             createQueryRunner of
        (Inr r, a1, qr1) \<Rightarrow> (Inr r, a1, release qr1)
      | (Inl err, a1, qr1) \<Rightarrow>
          (case rollbackTransaction a1 qr1 of
             (Inl err2, a2, qr2) \<Rightarrow> (Inl err2, a2, release qr2)
           | (Inr _, a2, qr2) \<Rightarrow> (Inl err, a2, release qr2)))"

subsection \<open>POST /auth/login\<close>

definition login ::
  "lib \<Rightarrow> (jwt_payload \<Rightarrow> string) \<Rightarrow> env \<Rightarrow> (op \<Rightarrow> bool) \<Rightarrow> int \<Rightarrow> string
     \<Rightarrow> string \<Rightarrow> string \<Rightarrow> app \<Rightarrow> response outcome" where
  "login l enc e fails now uuid pEmail pPassword a =
     (let matchedUser = findOneByUser (db a) \<lparr>w_email = Some pEmail, w_emailVerifiedAt = None\<rparr>
      in case matchedUser of
           None \<Rightarrow> (Inr (Json (Message ''Invalid email or password'') 400), a)
         | Some u \<Rightarrow>
             if \<not> bcryptCompare l pPassword (u_password u)
             then (Inr (Json (Message ''Invalid email or password'') 400), a)
             else
               (case generateUserToken l enc e fails now uuid u a of
                  (Inl err, a1) \<Rightarrow> (Inl err, a1)
                | (Inr (token, refreshToken), a1) \<Rightarrow>
                    (Inr (Json (MessageData ''Successfully logged in'' token refreshToken) 200),
                     a1)))"

subsection \<open>POST /auth/request-verification\<close>

definition sendMail :: "string \<Rightarrow> string \<Rightarrow> string \<Rightarrow> app \<Rightarrow> app" where
  \<comment> \<open>a failure of the transport is logged and swallowed, so sendMail always returns\<close>
  "sendMail to subject txt a = a\<lparr>outbox := outbox a @ [(to, subject, txt)]\<rparr>"

definition lineBreak :: string where
  \<comment> \<open>the line feed and the six spaces that end a line of the template literal and indent
      the next\<close>
  "lineBreak = [CHR 0x0A] @ ''      ''"

definition verificationUrl :: "lib \<Rightarrow> env \<Rightarrow> string \<Rightarrow> int \<Rightarrow> error + string" where
  \<comment> \<open>the template literal of the handler, line breaks and indentation included\<close>
  "verificationUrl l e userEmail loggedDate =
     (case hashHmac (hmacSha256Hex l) e (userEmail @ ''#'' @ numberToString loggedDate) of
        Inl err \<Rightarrow> Inl err
      | Inr signature \<Rightarrow>
          Inr (templateString (APP_URL e) @ ''/auth/verify'' @ lineBreak
               @ ''?email='' @ userEmail @ lineBreak
               @ ''&request_at='' @ numberToString loggedDate @ lineBreak
               @ ''&signature='' @ signature))"

definition requestVerification :: "lib \<Rightarrow> env \<Rightarrow> int \<Rightarrow> string \<Rightarrow> app \<Rightarrow> response outcome" where
  "requestVerification l e now pEmail a =
     (case findOneByUser (db a) \<lparr>w_email = Some pEmail, w_emailVerifiedAt = None\<rparr> of
        None \<Rightarrow> (Inr (Json (Message ''User not found'') 404), a)
      | Some u \<Rightarrow>
          (let loggedDate = now
           in case verificationUrl l e (u_email u) loggedDate of
                Inl err \<Rightarrow> (Inl err, a)
              | Inr url \<Rightarrow>
                  (Inr (Json (Status ''success'') 200),
                   sendMail (u_email u) ''Email Verification'' url a)))"

subsection \<open>GET /auth/verify\<close>

datatype link_check = Passed | Rejected response | Raised error

definition validateVerificationLink ::
  "lib \<Rightarrow> env \<Rightarrow> int \<Rightarrow> string option \<Rightarrow> string option \<Rightarrow> string option \<Rightarrow> link_check" where
  \<comment> \<open>the handler up to its second check; now is the time of new Date()\<close>
  "validateVerificationLink l e now pEmail request_at signature =
     (let requestDate = newDate (parseInt request_at);
          currentDate = Some now;
          timeDiff = jsMinus (getTime currentDate) (getTime requestDate)
      in case hashHmac (hmacSha256Hex l) e
                (templateString pEmail @ ''#'' @ templateString request_at) of
           Inl err \<Rightarrow> Raised err
         | Inr h \<Rightarrow>
             if Some h \<noteq> signature then Rejected (Json (Message ''Invalid signature'') 400)
             else if jsGreater timeDiff (1000 * 60 * 10)
             then Rejected (Json (Message ''Request expired'') 400)
             else Passed)"

definition verifyEmail ::
  "lib \<Rightarrow> env \<Rightarrow> int \<Rightarrow> string option \<Rightarrow> string option \<Rightarrow> string option \<Rightarrow> app
     \<Rightarrow> response outcome" where
  "verifyEmail l e now pEmail request_at signature a =
     (case validateVerificationLink l e now pEmail request_at signature of
        Raised err \<Rightarrow> (Inl err, a)
      | Rejected r \<Rightarrow> (Inr r, a)
      | Passed \<Rightarrow>
          (case findOneByUser (db a) \<lparr>w_email = pEmail, w_emailVerifiedAt = None\<rparr> of
             None \<Rightarrow> (Inr (Json (Message ''User not found'') 404), a)
           | Some u \<Rightarrow>
               (Inr (Json (Status ''success'') 200),
                a\<lparr>db := updateUser (u\<lparr>u_emailVerifiedAt := Some now\<rparr>) (db a)\<rparr>)))"

section \<open>Request bodies and their validation\<close>

datatype json =
    JNull | JBool bool | JNum int | JStr string | JArr "json list" | JObj "(string \<times> json) list"

definition field :: "json \<Rightarrow> string \<Rightarrow> json option" where
  \<comment> \<open>data.key: undefined on a missing key; the last of several equal keys wins\<close>
  "field data k = (case data of JObj fs \<Rightarrow> map_of (rev fs) k | _ \<Rightarrow> None)"

definition strField :: "json \<Rightarrow> string \<Rightarrow> string" where
  \<comment> \<open>a field that validation has shown to be a string\<close>
  "strField data k = (case field data k of Some (JStr s) \<Rightarrow> s | _ \<Rightarrow> [])"

definition boolField :: "json \<Rightarrow> string \<Rightarrow> bool option" where
  \<comment> \<open>a field that validation has shown to be a boolean or absent\<close>
  "boolField data k = (case field data k of Some (JBool b) \<Rightarrow> Some b | _ \<Rightarrow> None)"

datatype zod = ZString nat bool | ZBoolean | ZOptional zod

fun zodCheck :: "lib \<Rightarrow> zod \<Rightarrow> json option \<Rightarrow> bool" where
  \<comment> \<open>ZString m e is z.string().min(m), followed by .email() when e holds\<close>
  "zodCheck l (ZString m e) v =
     (case v of
        Some (JStr s) \<Rightarrow> m \<le> length s \<and> (if e then zodEmail l s else True)
      | _ \<Rightarrow> False)"
| "zodCheck l ZBoolean v = (case v of Some (JBool _) \<Rightarrow> True | _ \<Rightarrow> False)"
| "zodCheck l (ZOptional z) v = (v = None \<or> zodCheck l z v)"

definition zodObject :: "lib \<Rightarrow> (string \<times> zod) list \<Rightarrow> json \<Rightarrow> bool" where
  \<comment> \<open>z.object(shape).parseAsync(data) succeeds; unknown keys are ignored\<close>
  "zodObject l shape data =
     (case data of
        JObj _ \<Rightarrow> list_all (\<lambda>(k, z). zodCheck l z (field data k)) shape
      | _ \<Rightarrow> False)"

definition validate ::
  "lib \<Rightarrow> (string \<times> zod) list \<Rightarrow> json option \<Rightarrow> (json \<Rightarrow> app \<Rightarrow> response outcome) \<Rightarrow> app
     \<Rightarrow> response outcome" where
  \<comment> \<open>the body is None when it is not JSON; next is the rest of the route, which reads
      the same body\<close>
  "validate l shape reqBody next a =
     (case reqBody of
        None \<Rightarrow> (Inr (Raw (JsError ''SyntaxError'') 400), a)
      | Some data \<Rightarrow>
          if zodObject l shape data then next data a else (Inr (Raw ZodError 400), a))"

section \<open>The authentication middleware and the error handler\<close>

definition authentication ::
  "lib \<Rightarrow> env \<Rightarrow> int \<Rightarrow> jwt option option \<Rightarrow> (app \<Rightarrow> response outcome) \<Rightarrow> app
     \<Rightarrow> response outcome" where
  \<comment> \<open>token is the second word of the Authorization header: None (undefined) when the
      header is absent or has no second word, and verify then throws on token.split\<close>
  "authentication l e now token next a =
     (case token of
        None \<Rightarrow> (Inl (TypeError ''Cannot read properties of undefined (reading split)''), a)
      | Some tokenText \<Rightarrow>
          (case verify l now tokenText (JWT_SECRET e) of
             Inl err \<Rightarrow> (Inl err, a)
           | Inr decodedPayload \<Rightarrow>
               (let u = findOneByUser (db a)
                          \<lparr>w_email = Some (email decodedPayload), w_emailVerifiedAt = None\<rparr>
                in next (setUser u a))))"

definition onError :: "error \<Rightarrow> response" where
  "onError err = (if err = JwtTokenExpired then Json (Message ''Token expired'') 401 else Raw err 500)"

definition respond :: "response outcome \<Rightarrow> response \<times> app" where
  \<comment> \<open>what the client receives: an error thrown anywhere in the route goes through onError\<close>
  "respond out = (case out of (Inl err, a) \<Rightarrow> (onError err, a) | (Inr r, a) \<Rightarrow> (r, a))"

section \<open>The handlers of /tasks\<close>

definition listQuery :: "string option \<Rightarrow> string option \<Rightarrow> user option \<Rightarrow> find_options" where
  "listQuery per_page page u =
     \<lparr>fo_user = u,
      fo_take = numberOr (parseInt per_page) (Num 10),
      fo_skip = numberTimes (numberMinus (numberOr (parseInt page) (Num 1)) (Num 1))
                  (numberOr (parseInt per_page) (Num 10))\<rparr>"

definition tasksGet :: "string option \<Rightarrow> string option \<Rightarrow> app \<Rightarrow> response outcome" where
  "tasksGet per_page page a =
     (let u = getUser a;
          query = listQuery per_page page u
      in case findTasks (db a) query of
           Inl err \<Rightarrow> (Inl err, a)
         | Inr found \<Rightarrow> (Inr (Json (StatusTasks ''success'' found) 200), a))"

definition tasksPost :: "int \<Rightarrow> string \<Rightarrow> string \<Rightarrow> app \<Rightarrow> response outcome" where
  "tasksPost now title description a =
     (let u = getUser a;
          newTask = \<lparr>t_id = None, t_title = title, t_description = description,
                     t_completed = Some False, t_user = ownerId u, t_createdAt = now,
                     t_updatedAt = None\<rparr>;
          (saved, s') = saveTask newTask (db a)
      in (Inr (Json (StatusTask ''success'' saved) 200), a\<lparr>db := s'\<rparr>))"

definition tasksPut ::
  "int \<Rightarrow> string \<Rightarrow> string \<Rightarrow> string \<Rightarrow> bool option \<Rightarrow> app \<Rightarrow> response outcome" where
  \<comment> \<open>completed is None when the body has no such field\<close>
  "tasksPut now idParam title description completed a =
     (let taskId = parseInt (Some idParam)
      in case findOneByTask (db a) taskId (getUser a) of
           Inl err \<Rightarrow> (Inl err, a)
         | Inr None \<Rightarrow> (Inl (JsError (''Task '' @ numberTemplate taskId @ '' not found'')), a)
         | Inr (Some found) \<Rightarrow>
             (let edited = found\<lparr>t_title := title, t_description := description,
                                 t_completed := completed, t_updatedAt := Some now\<rparr>;
                  (saved, s') = saveTask edited (db a)
              in (Inr (Json (StatusTask ''success'' saved) 200), a\<lparr>db := s'\<rparr>)))"

definition tasksDelete :: "string \<Rightarrow> app \<Rightarrow> response outcome" where
  "tasksDelete idParam a =
     (let taskId = parseInt (Some idParam);
          u = getUser a
      in case findOneByTask (db a) taskId u of
           Inl err \<Rightarrow> (Inl err, a)
         | Inr None \<Rightarrow> (Inr (Json (Message ''Task not found'') 400), a)
         | Inr (Some found) \<Rightarrow>
             \<comment> \<open>remove(task) takes the row away and clears the id of the entity\<close>
             (Inr (Json (StatusTask ''success'' (found\<lparr>t_id := None\<rparr>)) 200),
              a\<lparr>db := removeTask found (db a)\<rparr>))"

definition postShape :: "(string \<times> zod) list" where
  "postShape = [(''title'', ZString 1 False), (''description'', ZString 1 False)]"

definition putShape :: "(string \<times> zod) list" where
  "putShape =
     [(''title'', ZString 1 False), (''description'', ZString 1 False),
      (''completed'', ZOptional ZBoolean)]"

definition loginShape :: "(string \<times> zod) list" where
  "loginShape = [(''email'', ZString 1 True), (''password'', ZString 6 False)]"

definition tasksGetRoute ::
  "lib \<Rightarrow> env \<Rightarrow> int \<Rightarrow> jwt option option \<Rightarrow> string option \<Rightarrow> string option \<Rightarrow> app
     \<Rightarrow> response outcome" where
  "tasksGetRoute l e now token per_page page a =
     authentication l e now token (tasksGet per_page page) a"

definition tasksPostRoute ::
  "lib \<Rightarrow> env \<Rightarrow> int \<Rightarrow> jwt option option \<Rightarrow> json option \<Rightarrow> app \<Rightarrow> response outcome" where
  "tasksPostRoute l e now token reqBody a =
     authentication l e now token
       (validate l postShape reqBody
          (\<lambda>data. tasksPost now (strField data ''title'') (strField data ''description''))) a"

definition tasksPutRoute ::
  "lib \<Rightarrow> env \<Rightarrow> int \<Rightarrow> jwt option option \<Rightarrow> string \<Rightarrow> json option \<Rightarrow> app
     \<Rightarrow> response outcome" where
  "tasksPutRoute l e now token idParam reqBody a =
     authentication l e now token
       (validate l putShape reqBody
          (\<lambda>data. tasksPut now idParam (strField data ''title'') (strField data ''description'')
                     (boolField data ''completed''))) a"

definition tasksDeleteRoute ::
  "lib \<Rightarrow> env \<Rightarrow> int \<Rightarrow> jwt option option \<Rightarrow> string \<Rightarrow> app \<Rightarrow> response outcome" where
  "tasksDeleteRoute l e now token idParam a =
     authentication l e now token (tasksDelete idParam) a"

definition loginRoute ::
  "lib \<Rightarrow> (jwt_payload \<Rightarrow> string) \<Rightarrow> env \<Rightarrow> (op \<Rightarrow> bool) \<Rightarrow> int \<Rightarrow> string \<Rightarrow> json option
     \<Rightarrow> app \<Rightarrow> response outcome" where
  "loginRoute l enc e fails now uuid reqBody a =
     validate l loginShape reqBody
       (\<lambda>data. login l enc e fails now uuid (strField data ''email'') (strField data ''password'')) a"

section \<open>The query parameters of a URL\<close>

fun splitOn :: "char \<Rightarrow> string \<Rightarrow> string list" where
  "splitOn c [] = [[]]"
| "splitOn c (x # xs) =
     (if x = c then [] # splitOn c xs
      else (case splitOn c xs of [] \<Rightarrow> [[x]] | y # ys \<Rightarrow> (x # y) # ys))"

definition queryParams :: "string \<Rightarrow> (string \<times> string) list" where
  \<comment> \<open>the text after the first question mark, cut at every ampersand, each piece cut at
      its first equals sign; no character is decoded\<close>
  "queryParams url =
     map (\<lambda>piece. (takeWhile (\<lambda>c. c \<noteq> CHR ''='') piece,
                   drop 1 (dropWhile (\<lambda>c. c \<noteq> CHR ''='') piece)))
       (splitOn CHR ''&'' (drop 1 (dropWhile (\<lambda>c. c \<noteq> CHR ''?'') url)))"

definition queryParam :: "string \<Rightarrow> string \<Rightarrow> string option" where
  "queryParam url k = map_of (queryParams url) k"

section \<open>Concrete inputs\<close>

text \<open>
  Stand-ins for the library functions, used only to run the definitions above on concrete
  inputs: the keyed hashes write the key and the data side by side, the password hash
  puts a mark before the password, an e-mail address is a string with an at sign.
\<close>

definition exampleLib :: lib where
  "exampleLib =
     \<lparr>hmacSha256Hex = (\<lambda>k d. k @ '':'' @ d),
      jwtHs256 = (\<lambda>k d. k @ '':'' @ d),
      bcryptHash = (\<lambda>p n. ''$'' @ p),
      bcryptCompare = (\<lambda>p h. h = ''$'' @ p),
      zodEmail = (\<lambda>s. CHR ''@'' \<in> set s)\<rparr>"

definition exampleEnv :: env where
  "exampleEnv = \<lparr>JWT_SECRET = Some ''s3cret'', APP_URL = Some ''http://localhost:3000''\<rparr>"

definition exampleEncode :: "jwt_payload \<Rightarrow> string" where
  "exampleEncode p = email p @ ''.'' @ numberToString (exp p)"

definition ann :: user where
  "ann = \<lparr>u_id = Some 1, u_firstName = ''Ann'', u_lastName = ''Lee'', u_email = ''a@b.co'',
          u_password = ''$hunter22'', u_emailVerifiedAt = None\<rparr>"

definition bob :: user where
  "bob = \<lparr>u_id = Some 2, u_firstName = ''Bob'', u_lastName = ''Ray'', u_email = ''b@c.io'',
          u_password = ''$letmein9'', u_emailVerifiedAt = Some 1600000000000\<rparr>"

definition annTask :: task where
  "annTask = \<lparr>t_id = Some 1, t_title = ''Write'', t_description = ''the report'',
              t_completed = Some True, t_user = Some 1, t_createdAt = 1650000000000,
              t_updatedAt = None\<rparr>"

definition bobTask :: task where
  "bobTask = \<lparr>t_id = Some 2, t_title = ''Read'', t_description = ''the book'',
              t_completed = Some False, t_user = Some 2, t_createdAt = 1660000000000,
              t_updatedAt = None\<rparr>"

definition exampleStore :: store where
  "exampleStore =
     \<lparr>users = [ann, bob], tasks = [annTask, bobTask], refreshTokens = [],
      userSeq = 3, taskSeq = 3, refreshTokenSeq = 1\<rparr>"

definition exampleApp :: app where
  "exampleApp = \<lparr>db = exampleStore, currentUser = None, outbox = []\<rparr>"

definition annToken :: jwt where
  "annToken =
     \<lparr>j_payload = \<lparr>userId = Some 1, firstName = ''Ann'', lastName = ''Lee'', email = ''a@b.co'',
                   exp = 1700003600\<rparr>,
      j_signed = ''a@b.co.1700003600'', j_signature = ''s3cret:a@b.co.1700003600''\<rparr>"

definition strangerToken :: jwt where
  "strangerToken =
     \<lparr>j_payload = \<lparr>userId = Some 7, firstName = ''Zed'', lastName = ''Moe'', email = ''z@y.xx'',
                   exp = 1700003600\<rparr>,
      j_signed = ''z@y.xx.1700003600'', j_signature = ''s3cret:z@y.xx.1700003600''\<rparr>"

section \<open>Decimal numerals are read back by parseInt\<close>

lemma digitValue_digitChar: "d < 10 \<Longrightarrow> digitValue (digitChar d) = Some d"
  by (simp add: digitValue_def digitChar_def Let_def)

lemma of_char_digitChar: "d < 10 \<Longrightarrow> of_char (digitChar d) = 48 + d"
  by (simp add: digitChar_def)

lemma radixDigit_digitChar: "d < 10 \<Longrightarrow> radixDigit 10 (digitChar d) = Some d"
  by (simp add: radixDigit_def digitValue_digitChar)

lemma digitsValue_append:
  "\<forall>c \<in> set xs. radixDigit R c \<noteq> None \<Longrightarrow>
   digitsValue R acc (xs @ ys) = digitsValue R (digitsValue R acc xs) ys"
  by (induction xs arbitrary: acc) (auto split: option.splits)

lemma decimalDigit_digitChar: "decimalDigit (digitChar d)"
  by (simp add: decimalDigit_def digitChar_def)

lemma decimalDigit_facts:
  assumes "decimalDigit c"
  shows "\<not> isWhiteSpace c" "c \<noteq> CHR ''-''" "c \<noteq> CHR ''+''" "c \<noteq> CHR ''x''" "c \<noteq> CHR ''X''"
    "radixDigit 10 c \<noteq> None"
  using assms
  by (auto simp: decimalDigit_def isWhiteSpace_def radixDigit_def digitValue_def)

lemma natToDigits_decimal: "\<forall>c \<in> set (natToDigits n). decimalDigit c"
proof (induction n rule: natToDigits.induct)
  case (1 n)
  then show ?case
    by (subst natToDigits.simps) (simp add: decimalDigit_digitChar)
qed

lemma natToDigits_nonempty: "natToDigits n \<noteq> []"
  by (subst natToDigits.simps) simp

lemma digitsValue_natToDigits: "digitsValue 10 0 (natToDigits n) = n"
proof (induction n rule: natToDigits.induct)
  case (1 n)
  show ?case
  proof (cases "n < 10")
    case True
    then show ?thesis
      by (subst natToDigits.simps) (simp add: radixDigit_digitChar)
  next
    case False
    have d: "\<forall>c \<in> set (natToDigits (n div 10)). radixDigit 10 c \<noteq> None"
      using natToDigits_decimal [of "n div 10"] decimalDigit_facts(6) by blast
    have "digitsValue 10 0 (natToDigits (n div 10) @ [digitChar (n mod 10)])
          = digitsValue 10 (n div 10) [digitChar (n mod 10)]"
      using digitsValue_append [OF d] 1 False by simp
    also have "\<dots> = n" by (simp add: radixDigit_digitChar)
    finally show ?thesis using False by (subst natToDigits.simps) simp
  qed
qed

lemma radixDigit_10_decimal:
  assumes "radixDigit 10 c \<noteq> None"
  shows "decimalDigit c"
  using assms
  by (auto simp: radixDigit_def digitValue_def decimalDigit_def Let_def
      split: if_splits option.splits)

lemma digitsValue_stops:
  assumes "\<forall>c \<in> set ds. decimalDigit c" "rest = [] \<or> \<not> decimalDigit (hd rest)"
  shows "digitsValue 10 acc (ds @ rest) = digitsValue 10 acc ds"
proof -
  have d: "\<forall>c \<in> set ds. radixDigit 10 c \<noteq> None"
    using assms(1) decimalDigit_facts(6) by blast
  have "digitsValue 10 v rest = v" for v
  proof (cases rest)
    case Nil
    then show ?thesis by simp
  next
    case (Cons c cs)
    then have "\<not> decimalDigit c" using assms(2) by simp
    then have "radixDigit 10 c = None" using radixDigit_10_decimal by blast
    then show ?thesis using Cons by simp
  qed
  then show ?thesis using digitsValue_append [OF d] by simp
qed

lemma numeral_no_hex:
  assumes "ds \<noteq> []" "\<forall>c \<in> set ds. decimalDigit c"
    and "ds \<noteq> ''0'' \<or> (take 1 rest \<noteq> ''x'' \<and> take 1 rest \<noteq> ''X'')"
  shows "take 2 (ds @ rest) \<noteq> ''0x''" "take 2 (ds @ rest) \<noteq> ''0X''"
proof -
  from assms(1) obtain c cs where ds: "ds = c # cs" by (cases ds) auto
  have "take 2 (ds @ rest) \<noteq> ''0x'' \<and> take 2 (ds @ rest) \<noteq> ''0X''"
  proof (cases cs)
    case Nil
    { assume "take 2 (ds @ rest) = ''0x'' \<or> take 2 (ds @ rest) = ''0X''"
      then have "ds = ''0'' \<and> (take 1 rest = ''x'' \<or> take 1 rest = ''X'')"
        using ds Nil by (cases rest) auto
      then have False using assms(3) by auto }
    then show ?thesis by blast
  next
    case (Cons c' cs')
    then have "decimalDigit c'" using assms(2) ds by simp
    then have "c' \<noteq> CHR ''x''" "c' \<noteq> CHR ''X''" using decimalDigit_facts(4,5) by blast+
    then show ?thesis using ds Cons by simp
  qed
  then show "take 2 (ds @ rest) \<noteq> ''0x''" "take 2 (ds @ rest) \<noteq> ''0X''" by simp_all
qed

lemma parseIntString_numeral:
  assumes "ds \<noteq> []" "\<forall>c \<in> set ds. decimalDigit c"
    and "rest = [] \<or> \<not> decimalDigit (hd rest)"
    and "ds \<noteq> ''0'' \<or> (take 1 rest \<noteq> ''x'' \<and> take 1 rest \<noteq> ''X'')"
  shows "parseIntString (ds @ rest) = roundDouble (int (digitsValue 10 0 ds))"
proof -
  from assms obtain c cs where ds: "ds = c # cs" by (cases ds) auto
  have c: "decimalDigit c" using assms ds by simp
  note nohex = numeral_no_hex [OF assms(1,2,4)]
  have dw: "dropWhile isWhiteSpace (ds @ rest) = ds @ rest"
    using decimalDigit_facts(1) [OF c] ds by simp
  have t1: "take 1 (ds @ rest) \<noteq> ''-''" "take 1 (ds @ rest) \<noteq> ''+''"
    using ds decimalDigit_facts(2,3) [OF c] by simp_all
  obtain d where d: "radixDigit 10 c = Some d" using decimalDigit_facts(6) [OF c] by auto
  have cs: "(case ds @ rest of [] \<Rightarrow> NaN
             | c # x \<Rightarrow> (case radixDigit 10 c of None \<Rightarrow> NaN | Some x \<Rightarrow> v)) = v"
    for v :: number using ds d by simp
  show ?thesis
    unfolding parseIntString_def Let_def dw
    by (simp only: nohex t1 cs if_False simp_thms)
      (simp add: digitsValue_stops [OF assms(2,3)])
qed

lemma parseIntString_negative:
  assumes "ds \<noteq> []" "\<forall>c \<in> set ds. decimalDigit c"
    and "rest = [] \<or> \<not> decimalDigit (hd rest)"
    and "ds \<noteq> ''0'' \<or> (take 1 rest \<noteq> ''x'' \<and> take 1 rest \<noteq> ''X'')"
  shows "parseIntString (''-'' @ ds @ rest) = roundDouble (- int (digitsValue 10 0 ds))"
proof -
  from assms obtain c cs where ds: "ds = c # cs" by (cases ds) auto
  have c: "decimalDigit c" using assms ds by simp
  note nohex = numeral_no_hex [OF assms(1,2,4)]
  have dw: "dropWhile isWhiteSpace (''-'' @ ds @ rest) = ''-'' @ ds @ rest"
    by (simp add: isWhiteSpace_def)
  have t1: "take 1 (''-'' @ ds @ rest) = ''-''" "drop 1 (''-'' @ ds @ rest) = ds @ rest"
    by simp_all
  obtain d where d: "radixDigit 10 c = Some d" using decimalDigit_facts(6) [OF c] by auto
  have cs: "(case ds @ rest of [] \<Rightarrow> NaN
             | c # x \<Rightarrow> (case radixDigit 10 c of None \<Rightarrow> NaN | Some x \<Rightarrow> v)) = v"
    for v :: number using ds d by simp
  show ?thesis
    unfolding parseIntString_def Let_def dw
    by (simp only: nohex t1 cs if_False if_True simp_thms)
      (simp add: digitsValue_stops [OF assms(2,3)])
qed

text \<open>Below \<open>2^53\<close> nothing is rounded.\<close>

lemma roundDouble_safe: "\<bar>n\<bar> < 9007199254740992 \<Longrightarrow> roundDouble n = Num n"
  by (auto simp: roundDouble_def roundMagnitude_def)

lemma parseInt_numberToString:
  assumes "\<bar>n\<bar> < 9007199254740992"
  shows "parseInt (Some (numberToString n)) = Num n"
proof (cases "n < 0")
  case True
  then show ?thesis
    using parseIntString_negative [OF natToDigits_nonempty natToDigits_decimal, of "[]" "nat (- n)"]
      roundDouble_safe [OF assms]
    by (simp add: parseInt_def templateString_def numberToString_def digitsValue_natToDigits)
next
  case False
  then show ?thesis
    using parseIntString_numeral [OF natToDigits_nonempty natToDigits_decimal, of "[]" "nat n"]
      roundDouble_safe [OF assms]
    by (simp add: parseInt_def templateString_def numberToString_def digitsValue_natToDigits)
qed

lemma length_natToDigits: "0 < k \<Longrightarrow> n < 10 ^ k \<Longrightarrow> length (natToDigits n) \<le> k"
proof (induction n arbitrary: k rule: natToDigits.induct)
  case (1 n)
  show ?case
  proof (cases "n < 10")
    case True
    then show ?thesis using "1.prems" by (subst natToDigits.simps) simp
  next
    case False
    then have k: "1 < k" using "1.prems" by (cases "k = 1") auto
    have "n div 10 < 10 ^ (k - 1)"
    proof -
      have "n < 10 * 10 ^ (k - 1)" using "1.prems" k by (cases k) auto
      then show ?thesis by (simp add: less_mult_imp_div_less mult.commute)
    qed
    then have "length (natToDigits (n div 10)) \<le> k - 1"
      using "1.IH" [OF False, of "k - 1"] k by simp
    then show ?thesis using False k by (subst natToDigits.simps) simp
  qed
qed

lemma shortestDecimal_safe:
  "m < 9007199254740992 \<Longrightarrow> shortestDecimal m = (m, length (natToDigits m))"
  by (simp add: shortestDecimal_def)

lemma safe_digits: "m < 9007199254740992 \<Longrightarrow> length (natToDigits m) \<le> 21"
  using length_natToDigits [of 21 m] by simp

lemma magnitudeText_safe: "m < 9007199254740992 \<Longrightarrow> magnitudeText m = natToDigits m"
  by (simp add: magnitudeText_def shortestDecimal_safe safe_digits)

lemma printedMagnitude_safe: "m < 9007199254740992 \<Longrightarrow> printedMagnitude m = Some m"
  by (simp add: printedMagnitude_def shortestDecimal_safe safe_digits)

lemma numberTemplate_safe:
  "\<bar>i\<bar> < 9007199254740992 \<Longrightarrow> numberTemplate (Num i) = numberToString i"
  by (auto simp: numberTemplate_def numberToString_def magnitudeText_safe)

lemma limitValue_safe:
  "0 \<le> n \<Longrightarrow> n < 9007199254740992 \<Longrightarrow> limitValue (Num n) = Some (nat n)"
  by (simp add: limitValue_def printedMagnitude_safe)


section \<open>The verification link\<close>

lemma validateVerificationLink_Some:
  "JWT_SECRET e = Some k \<Longrightarrow>
   validateVerificationLink l e now pEmail request_at signature =
     (if Some (hmacSha256Hex l k (templateString pEmail @ ''#'' @ templateString request_at))
           \<noteq> signature
      then Rejected (Json (Message ''Invalid signature'') 400)
      else if jsGreater (jsMinus (Some now) (newDate (parseInt request_at))) 600000
      then Rejected (Json (Message ''Request expired'') 400)
      else Passed)"
  by (simp add: validateVerificationLink_def hashHmac_def getTime_def Let_def)

lemma validateVerificationLink_numeral:
  assumes "JWT_SECRET e = Some k" "\<bar>T\<bar> \<le> 8640000000000000"
  shows "validateVerificationLink l e now pEmail (Some (numberToString T))
           (Some (hmacSha256Hex l k (templateString pEmail @ ''#'' @ numberToString T))) =
         (if now - T \<le> 10 * 60 * 1000 then Passed
          else Rejected (Json (Message ''Request expired'') 400))"
proof -
  have "\<bar>T\<bar> < 9007199254740992" using assms(2) by simp
  then have "parseInt (Some (numberToString T)) = Num T" by (rule parseInt_numberToString)
  then have "newDate (parseInt (Some (numberToString T))) = Some T"
    using assms(2) by (simp add: newDate_def)
  then show ?thesis
    by (simp add: validateVerificationLink_Some [OF assms(1)] jsGreater_def jsMinus_def
        templateString_def)
qed

lemma verifyEmail_after_checks:
  assumes "validateVerificationLink l e now pEmail request_at signature = Passed"
  shows "verifyEmail l e now pEmail request_at signature a =
           (case findOneByUser (db a) \<lparr>w_email = pEmail, w_emailVerifiedAt = None\<rparr> of
              None \<Rightarrow> (Inr (Json (Message ''User not found'') 404), a)
            | Some u \<Rightarrow>
                (Inr (Json (Status ''success'') 200),
                 a\<lparr>db := updateUser (u\<lparr>u_emailVerifiedAt := Some now\<rparr>) (db a)\<rparr>))"
  using assms by (simp add: verifyEmail_def)

text \<open>
  C1, as the code has it. With the secret configured, the two checks of GET /auth/verify
  pass exactly when the signature parameter is the HMAC of \<open>email # request_at\<close>
  (the parameters as they were sent) and the handler's test "elapsed > 10 minutes" is
  false. That test is also false when \<open>request_at\<close> does not parse to a valid
  date, since the elapsed time is then NaN. For a \<open>request_at\<close> that is the
  decimal numeral of a valid timestamp T, and the signature that belongs to it, the
  checks pass when \<open>now - T\<close> is at most 10 minutes and answer "Request expired"
  otherwise: a link of 9 min 59 s passes, one of 10 min 1 s is expired.
\<close>

theorem validateVerificationLink_passes_iff:
  assumes "JWT_SECRET e = Some k"
  shows "((validateVerificationLink l e now pEmail request_at signature = Passed) =
          (signature = Some (hmacSha256Hex l k
                               (templateString pEmail @ ''#'' @ templateString request_at)) \<and>
           (case newDate (parseInt request_at) of
              None \<Rightarrow> True
            | Some t \<Rightarrow> now - t \<le> 10 * 60 * 1000))) \<and>
         (\<bar>T\<bar> \<le> 8640000000000000 \<longrightarrow>
            validateVerificationLink l e now pEmail (Some (numberToString T))
              (Some (hmacSha256Hex l k (templateString pEmail @ ''#'' @ numberToString T))) =
            (if now - T \<le> 10 * 60 * 1000 then Passed
             else Rejected (Json (Message ''Request expired'') 400)))"
proof (intro conjI impI)
  show "(validateVerificationLink l e now pEmail request_at signature = Passed) =
          (signature = Some (hmacSha256Hex l k
                               (templateString pEmail @ ''#'' @ templateString request_at)) \<and>
           (case newDate (parseInt request_at) of
              None \<Rightarrow> True
            | Some t \<Rightarrow> now - t \<le> 10 * 60 * 1000))"
    by (auto simp: validateVerificationLink_Some [OF assms] jsGreater_def jsMinus_def
        split: option.splits)
next
  assume "\<bar>T\<bar> \<le> 8640000000000000"
  then show "validateVerificationLink l e now pEmail (Some (numberToString T))
              (Some (hmacSha256Hex l k (templateString pEmail @ ''#'' @ numberToString T))) =
            (if now - T \<le> 10 * 60 * 1000 then Passed
             else Rejected (Json (Message ''Request expired'') 400))"
    by (rule validateVerificationLink_numeral [OF assms])
qed

text \<open>The two examples of the claim, 9 min 59 s and 10 min 1 s after the timestamp.\<close>

theorem validateVerificationLink_passes_iff_witness:
  "validateVerificationLink exampleLib exampleEnv 1700000599000 (Some ''a@b.co'')
     (Some ''1700000000000'') (Some ''s3cret:a@b.co#1700000000000'') = Passed \<and>
   validateVerificationLink exampleLib exampleEnv 1700000601000 (Some ''a@b.co'')
     (Some ''1700000000000'') (Some ''s3cret:a@b.co#1700000000000'')
     = Rejected (Json (Message ''Request expired'') 400)"
proof -
  have k: "JWT_SECRET exampleEnv = Some ''s3cret''" by (simp add: exampleEnv_def)
  have n: "numberToString 1700000000000 = ''1700000000000''"
    by (simp add: numberToString_def natToDigits.simps digitChar_def)
  have T: "\<bar>1700000000000 :: int\<bar> \<le> 8640000000000000" by simp
  note inst = validateVerificationLink_passes_iff [OF k, THEN conjunct2, rule_format, OF T,
      of exampleLib _ "Some ''a@b.co''"]
  show ?thesis
    using inst [of 1700000599000] inst [of 1700000601000]
    by (simp add: n exampleLib_def templateString_def)
qed

text \<open>
  The claim as it is worded asks for \<open>now - parse(request_at) \<le> 10 minutes\<close>.
  With a \<open>request_at\<close> that is no number the checks pass although that
  comparison is false.
\<close>

theorem validateVerificationLink_unparsed_counterexample:
  "validateVerificationLink exampleLib exampleEnv 1700000000000 (Some ''a@b.co'')
     (Some ''soon'') (Some ''s3cret:a@b.co#soon'') = Passed \<and>
   \<not> jsLessEq (jsMinus (Some 1700000000000) (getTime (newDate (parseInt (Some ''soon'')))))
        (10 * 60 * 1000)"
  by (simp add: validateVerificationLink_def hashHmac_def exampleEnv_def exampleLib_def
      templateString_def parseInt_def parseIntString_def isWhiteSpace_def radixDigit_def
      digitValue_def newDate_def getTime_def jsMinus_def jsGreater_def jsLessEq_def Let_def)


lemma numberToString_example: "numberToString 1700000000000 = ''1700000000000''"
  by (simp add: numberToString_def natToDigits.simps digitChar_def)

lemma exampleUrl:
  "verificationUrl exampleLib exampleEnv ''a@b.co'' 1700000000000 =
     Inr (''http://localhost:3000/auth/verify'' @ lineBreak @ ''?email=a@b.co'' @ lineBreak
          @ ''&request_at=1700000000000'' @ lineBreak
          @ ''&signature=s3cret:a@b.co#1700000000000'')"
  by (simp add: verificationUrl_def hashHmac_def exampleEnv_def exampleLib_def
      numberToString_example templateString_def)

lemma exampleParams:
  "queryParams (''http://localhost:3000/auth/verify'' @ lineBreak @ ''?email=a@b.co'' @ lineBreak
          @ ''&request_at=1700000000000'' @ lineBreak
          @ ''&signature=s3cret:a@b.co#1700000000000'') =
   [(''email'', ''a@b.co'' @ lineBreak), (''request_at'', ''1700000000000'' @ lineBreak),
    (''signature'', ''s3cret:a@b.co#1700000000000'')]"
  by (simp add: queryParams_def lineBreak_def)

text \<open>
  C2, at a concrete input. The user Ann (a@b.co, not verified) requests verification at
  time 1700000000000. The handler answers success and mails the URL below. The template
  literal that builds the URL runs over four lines, so the URL carries a line feed and six
  spaces in front of the question mark and behind the values of \<open>email\<close> and
  \<open>request_at\<close>. The parameters of that URL, submitted one second later, are
  answered with "Invalid signature": the handler recomputes the HMAC over the padded
  values, and the signature was computed over the values without the padding.
\<close>

theorem verification_link_rejected:
  "(let url = ''http://localhost:3000/auth/verify'' @ lineBreak @ ''?email=a@b.co'' @ lineBreak
          @ ''&request_at=1700000000000'' @ lineBreak
          @ ''&signature=s3cret:a@b.co#1700000000000'';
        mailed = exampleApp\<lparr>outbox := [(''a@b.co'', ''Email Verification'', url)]\<rparr>
    in requestVerification exampleLib exampleEnv 1700000000000 ''a@b.co'' exampleApp
         = (Inr (Json (Status ''success'') 200), mailed) \<and>
       queryParam url ''email'' = Some (''a@b.co'' @ lineBreak) \<and>
       queryParam url ''request_at'' = Some (''1700000000000'' @ lineBreak) \<and>
       queryParam url ''signature'' = Some ''s3cret:a@b.co#1700000000000'' \<and>
       verifyEmail exampleLib exampleEnv 1700000001000 (queryParam url ''email'')
         (queryParam url ''request_at'') (queryParam url ''signature'') mailed
         = (Inr (Json (Message ''Invalid signature'') 400), mailed))"
proof -
  have find: "findOneByUser (db exampleApp) \<lparr>w_email = Some ''a@b.co'', w_emailVerifiedAt = None\<rparr>
              = Some ann"
    by (simp add: findOneByUser_def exampleApp_def exampleStore_def userMatches_def ann_def)
  have req: "requestVerification exampleLib exampleEnv 1700000000000 ''a@b.co'' exampleApp
         = (Inr (Json (Status ''success'') 200),
            exampleApp\<lparr>outbox := [(''a@b.co'', ''Email Verification'',
              ''http://localhost:3000/auth/verify'' @ lineBreak @ ''?email=a@b.co'' @ lineBreak
              @ ''&request_at=1700000000000'' @ lineBreak
              @ ''&signature=s3cret:a@b.co#1700000000000'')]\<rparr>)"
    unfolding requestVerification_def find
    by (simp add: exampleUrl [simplified] ann_def sendMail_def exampleApp_def)
  have k: "JWT_SECRET exampleEnv = Some ''s3cret''" by (simp add: exampleEnv_def)
  have chk: "validateVerificationLink exampleLib exampleEnv 1700000001000
               (Some (''a@b.co'' @ lineBreak)) (Some (''1700000000000'' @ lineBreak))
               (Some ''s3cret:a@b.co#1700000000000'')
             = Rejected (Json (Message ''Invalid signature'') 400)"
    by (simp add: validateVerificationLink_Some [OF k] exampleLib_def templateString_def
        lineBreak_def)
  show ?thesis
    unfolding Let_def queryParam_def exampleParams
    using req chk by (simp add: verifyEmail_def)
qed


section \<open>Session tokens\<close>

lemma generateUserToken_ok:
  assumes "JWT_SECRET e = Some k" "\<not> fails JwtSign" "\<not> fails SaveRefreshToken"
  shows "generateUserToken l enc e fails now uuid u a =
    (let p = \<lparr>userId = u_id u, firstName = u_firstName u, lastName = u_lastName u,
               email = u_email u, exp = now div 1000 + 60 * 60\<rparr>
     in (Inr (\<lparr>j_payload = p, j_signed = enc p, j_signature = jwtHs256 l k (enc p)\<rparr>, uuid),
         a\<lparr>db := snd (insertRefreshToken
                 \<lparr>r_id = None, r_token = uuid, r_user = u_id u,
                  r_expiredAt = addDays now 1, r_createdAt = now\<rparr> (db a))\<rparr>))"
  using assms by (simp add: generateUserToken_def sign_def Let_def)

text \<open>
  C3, as the code has it. With the secret configured and no outside call failing, the
  token that \<open>generateUserToken\<close> returns at clock time \<open>issued\<close> (in
  ms, not before 1970) carries exactly the user's id, first name, last name and email,
  and an expiry of \<open>issued div 1000 + 3600\<close> seconds: one hour after the issue time
  rounded down to the whole second. Verified with the same secret, it yields these claims
  at every time whose whole second is before the expiry, in particular up to 59 min 59 s
  after it was issued, and it fails with JwtTokenExpired from one hour after it was issued.
\<close>

theorem session_token_roundtrip:
  assumes "JWT_SECRET e = Some k" "\<not> fails JwtSign" "\<not> fails SaveRefreshToken" "0 \<le> issued"
  shows "(let p = \<lparr>userId = u_id u, firstName = u_firstName u, lastName = u_lastName u,
                   email = u_email u, exp = issued div 1000 + 60 * 60\<rparr>;
              token = \<lparr>j_payload = p, j_signed = enc p, j_signature = jwtHs256 l k (enc p)\<rparr>
          in fst (generateUserToken l enc e fails issued uuid u a) = Inr (token, uuid) \<and>
             (\<forall>now. now div 1000 < issued div 1000 + 60 * 60 \<longrightarrow>
                    verify l now (Some token) (JWT_SECRET e) = Inr p) \<and>
             (\<forall>now. now - issued \<le> 59 * 60 * 1000 + 59 * 1000 \<longrightarrow>
                    verify l now (Some token) (JWT_SECRET e) = Inr p) \<and>
             (\<forall>now. 60 * 60 * 1000 \<le> now - issued \<longrightarrow>
                    verify l now (Some token) (JWT_SECRET e) = Inl JwtTokenExpired))"
proof -
  define p where "p = \<lparr>userId = u_id u, firstName = u_firstName u, lastName = u_lastName u,
              email = u_email u, exp = issued div 1000 + 60 * 60\<rparr>"
  define token where "token = \<lparr>j_payload = p, j_signed = enc p, j_signature = jwtHs256 l k (enc p)\<rparr>"
  have pos: "exp p \<noteq> 0"
  proof -
    have "0 \<le> issued div 1000" using assms(4) by simp
    then show ?thesis by (simp add: p_def)
  qed
  have g: "fst (generateUserToken l enc e fails issued uuid u a) = Inr (token, uuid)"
    using generateUserToken_ok [OF assms(1-3)] by (simp add: Let_def token_def p_def)
  have fresh: "verify l now (Some token) (JWT_SECRET e) = Inr p"
    if "now div 1000 < issued div 1000 + 60 * 60" for now
    using that assms(1) by (simp add: verify_def token_def p_def)
  have early: "now div 1000 < issued div 1000 + 60 * 60"
    if "now - issued \<le> 59 * 60 * 1000 + 59 * 1000" for now
  proof -
    have "now \<le> issued + 3599000" using that by simp
    then have "now div 1000 \<le> (issued + 3599 * 1000) div 1000"
      by (intro zdiv_mono1) simp_all
    also have "\<dots> = issued div 1000 + 3599" by simp
    finally show ?thesis by simp
  qed
  have late: "verify l now (Some token) (JWT_SECRET e) = Inl JwtTokenExpired"
    if "60 * 60 * 1000 \<le> now - issued" for now
  proof -
    have "issued + 3600 * 1000 \<le> now" using that by simp
    then have "(issued + 3600 * 1000) div 1000 \<le> now div 1000"
      by (intro zdiv_mono1) simp_all
    then have "issued div 1000 + 3600 \<le> now div 1000" by simp
    then show ?thesis using pos by (simp add: verify_def token_def p_def)
  qed
  show ?thesis
    unfolding Let_def p_def [symmetric] token_def [symmetric]
    using g fresh early late by blast
qed

text \<open>Ann's token, issued at 1700000000.999 s, one second before and after a full hour.\<close>

theorem session_token_roundtrip_witness:
  "fst (generateUserToken exampleLib exampleEncode exampleEnv (\<lambda>_. False) 1700000000999
          ''4f2c'' ann exampleApp)
     = Inr (\<lparr>j_payload = \<lparr>userId = Some 1, firstName = ''Ann'', lastName = ''Lee'',
                           email = ''a@b.co'', exp = 1700003600\<rparr>,
             j_signed = ''a@b.co.1700003600'', j_signature = ''s3cret:a@b.co.1700003600''\<rparr>,
            ''4f2c'') \<and>
   verify exampleLib 1700003599999
     (Some \<lparr>j_payload = \<lparr>userId = Some 1, firstName = ''Ann'', lastName = ''Lee'',
                          email = ''a@b.co'', exp = 1700003600\<rparr>,
            j_signed = ''a@b.co.1700003600'', j_signature = ''s3cret:a@b.co.1700003600''\<rparr>)
     (Some ''s3cret'')
     = Inr \<lparr>userId = Some 1, firstName = ''Ann'', lastName = ''Lee'', email = ''a@b.co'',
            exp = 1700003600\<rparr> \<and>
   verify exampleLib 1700003600999
     (Some \<lparr>j_payload = \<lparr>userId = Some 1, firstName = ''Ann'', lastName = ''Lee'',
                          email = ''a@b.co'', exp = 1700003600\<rparr>,
            j_signed = ''a@b.co.1700003600'', j_signature = ''s3cret:a@b.co.1700003600''\<rparr>)
     (Some ''s3cret'')
     = Inl JwtTokenExpired"
proof -
  have k: "JWT_SECRET exampleEnv = Some ''s3cret''" by (simp add: exampleEnv_def)
  have n: "numberToString 1700003600 = ''1700003600''"
    by (simp add: numberToString_def natToDigits.simps digitChar_def)
  have f: "\<not> (\<lambda>_. False) JwtSign" "\<not> (\<lambda>_. False) SaveRefreshToken" "(0::int) \<le> 1700000000999"
    by simp_all
  note inst = session_token_roundtrip [OF k f, where l = exampleLib and u = ann
      and enc = exampleEncode and uuid = "''4f2c''" and a = exampleApp, unfolded Let_def]
  have a: "verify exampleLib 1700003599999
     (Some \<lparr>j_payload = \<lparr>userId = u_id ann, firstName = u_firstName ann, lastName = u_lastName ann,
                   email = u_email ann, exp = 1700000000999 div 1000 + 60 * 60\<rparr>,
            j_signed = exampleEncode \<lparr>userId = u_id ann, firstName = u_firstName ann, lastName = u_lastName ann,
                   email = u_email ann, exp = 1700000000999 div 1000 + 60 * 60\<rparr>,
            j_signature = jwtHs256 exampleLib ''s3cret'' (exampleEncode \<lparr>userId = u_id ann, firstName = u_firstName ann, lastName = u_lastName ann,
                   email = u_email ann, exp = 1700000000999 div 1000 + 60 * 60\<rparr>)\<rparr>)
     (JWT_SECRET exampleEnv) = Inr \<lparr>userId = u_id ann, firstName = u_firstName ann, lastName = u_lastName ann,
                   email = u_email ann, exp = 1700000000999 div 1000 + 60 * 60\<rparr>"
    using inst [THEN conjunct2, THEN conjunct1, rule_format, of 1700003599999] by simp
  have b: "verify exampleLib 1700003600999
     (Some \<lparr>j_payload = \<lparr>userId = u_id ann, firstName = u_firstName ann, lastName = u_lastName ann,
                   email = u_email ann, exp = 1700000000999 div 1000 + 60 * 60\<rparr>,
            j_signed = exampleEncode \<lparr>userId = u_id ann, firstName = u_firstName ann, lastName = u_lastName ann,
                   email = u_email ann, exp = 1700000000999 div 1000 + 60 * 60\<rparr>,
            j_signature = jwtHs256 exampleLib ''s3cret'' (exampleEncode \<lparr>userId = u_id ann, firstName = u_firstName ann, lastName = u_lastName ann,
                   email = u_email ann, exp = 1700000000999 div 1000 + 60 * 60\<rparr>)\<rparr>)
     (JWT_SECRET exampleEnv) = Inl JwtTokenExpired"
    using inst [THEN conjunct2, THEN conjunct2, THEN conjunct2, rule_format, of 1700003600999]
    by simp
  show ?thesis
    using inst [THEN conjunct1] a b
    by (simp add: ann_def exampleEncode_def exampleLib_def n k)
qed

text \<open>
  The claim as it is worded lets every verification less than one hour after the token was
  issued succeed. A token issued at 0.999 s expires at 3600 s, which is 3599.001 s later.
\<close>

theorem session_token_early_expiry_counterexample:
  "(3600000 :: int) - 999 < 60 * 60 * 1000 \<and>
   fst (generateUserToken exampleLib exampleEncode exampleEnv (\<lambda>_. False) 999 ''4f2c'' ann
          exampleApp)
     = Inr (\<lparr>j_payload = \<lparr>userId = Some 1, firstName = ''Ann'', lastName = ''Lee'',
                           email = ''a@b.co'', exp = 3600\<rparr>,
             j_signed = ''a@b.co.3600'', j_signature = ''s3cret:a@b.co.3600''\<rparr>, ''4f2c'') \<and>
   verify exampleLib 3600000
     (Some \<lparr>j_payload = \<lparr>userId = Some 1, firstName = ''Ann'', lastName = ''Lee'',
                          email = ''a@b.co'', exp = 3600\<rparr>,
            j_signed = ''a@b.co.3600'', j_signature = ''s3cret:a@b.co.3600''\<rparr>)
     (JWT_SECRET exampleEnv)
     = Inl JwtTokenExpired"
proof -
  have n: "numberToString 3600 = ''3600''"
    by (simp add: numberToString_def natToDigits.simps digitChar_def)
  show ?thesis
    by (simp add: generateUserToken_def sign_def verify_def exampleEnv_def exampleLib_def
        exampleEncode_def ann_def n Let_def)
qed


section \<open>Login\<close>

lemma findOneByUser_email:
  "findOneByUser s \<lparr>w_email = Some x, w_emailVerifiedAt = None\<rparr>
     = find (\<lambda>u. u_email u = x) (users s)"
proof -
  have "userMatches \<lparr>w_email = Some x, w_emailVerifiedAt = None\<rparr> = (\<lambda>u. u_email u = x)"
    by (simp add: userMatches_def fun_eq_iff)
  then show ?thesis by (simp add: findOneByUser_def)
qed

lemma loginRoute_valid:
  "zodObject l loginShape data \<Longrightarrow>
   loginRoute l enc e fails now uuid (Some data) a =
     login l enc e fails now uuid (strField data ''email'') (strField data ''password'') a"
  by (simp add: loginRoute_def validate_def)

text \<open>
  C4. The same login request (any email, any password) is run on three stores. On a
  store where no user has the email, and on a store where the user found by the email has
  a password hash that the comparison rejects, the handler returns the same response,
  status 400 with the message "Invalid email or password", and leaves the store as it was.
  On a store where the comparison accepts, with the secret configured and no outside call
  failing, it returns status 200 with the session token of that user and the refresh token
  drawn for the request, and has stored that refresh token. (A body that fails the schema
  of the route never reaches the handler; see \<open>loginRoute_valid\<close>.)
\<close>

theorem login_failure_uniform:
  assumes "pEmail \<notin> u_email ` set (users (db a1))"
    and "find (\<lambda>x. u_email x = pEmail) (users (db a2)) = Some u"
    and "\<not> bcryptCompare l pPassword (u_password u)"
    and "find (\<lambda>x. u_email x = pEmail) (users (db a3)) = Some v"
    and "bcryptCompare l pPassword (u_password v)"
    and "JWT_SECRET e = Some k" "\<not> fails JwtSign" "\<not> fails SaveRefreshToken"
  shows "login l enc e fails now uuid pEmail pPassword a1
           = (Inr (Json (Message ''Invalid email or password'') 400), a1) \<and>
         login l enc e fails now uuid pEmail pPassword a2
           = (Inr (Json (Message ''Invalid email or password'') 400), a2) \<and>
         fst (login l enc e fails now uuid pEmail pPassword a1)
           = fst (login l enc e fails now uuid pEmail pPassword a2) \<and>
         (let p = \<lparr>userId = u_id v, firstName = u_firstName v, lastName = u_lastName v,
                   email = u_email v, exp = now div 1000 + 60 * 60\<rparr>;
              token = \<lparr>j_payload = p, j_signed = enc p, j_signature = jwtHs256 l k (enc p)\<rparr>
          in login l enc e fails now uuid pEmail pPassword a3
               = (Inr (Json (MessageData ''Successfully logged in'' token uuid) 200),
                  a3\<lparr>db := (db a3)
                    \<lparr>refreshTokens := refreshTokens (db a3) @
                       [\<lparr>r_id = Some (refreshTokenSeq (db a3)), r_token = uuid, r_user = u_id v,
                         r_expiredAt = now + 86400000, r_createdAt = now\<rparr>],
                     refreshTokenSeq := refreshTokenSeq (db a3) + 1\<rparr>\<rparr>))"
proof -
  have none: "find (\<lambda>x. u_email x = pEmail) (users (db a1)) = None"
    using assms(1) by (auto simp: find_None_iff)
  have r1: "login l enc e fails now uuid pEmail pPassword a1
           = (Inr (Json (Message ''Invalid email or password'') 400), a1)"
    by (simp add: login_def findOneByUser_email none)
  have r2: "login l enc e fails now uuid pEmail pPassword a2
           = (Inr (Json (Message ''Invalid email or password'') 400), a2)"
    using assms(2,3) by (simp add: login_def findOneByUser_email)
  have r3: "login l enc e fails now uuid pEmail pPassword a3 =
        (case generateUserToken l enc e fails now uuid v a3 of
           (Inl err, a') \<Rightarrow> (Inl err, a')
         | (Inr (token, refreshToken), a') \<Rightarrow>
             (Inr (Json (MessageData ''Successfully logged in'' token refreshToken) 200), a'))"
    using assms(4,5) by (simp add: login_def findOneByUser_email)
  show ?thesis
    unfolding r3 generateUserToken_ok [OF assms(6-8)]
    using r1 r2 by (simp add: Let_def insertRefreshToken_def addDays_def)
qed

text \<open>Ann's email with her password, on a store without her, with another hash, and as it is.\<close>

theorem login_failure_uniform_witness:
  "login exampleLib exampleEncode exampleEnv (\<lambda>_. False) 1700000000999 ''4f2c''
      ''a@b.co'' ''hunter22'' (exampleApp\<lparr>db := exampleStore\<lparr>users := [bob]\<rparr>\<rparr>)
     = (Inr (Json (Message ''Invalid email or password'') 400),
        exampleApp\<lparr>db := exampleStore\<lparr>users := [bob]\<rparr>\<rparr>) \<and>
   login exampleLib exampleEncode exampleEnv (\<lambda>_. False) 1700000000999 ''4f2c''
      ''a@b.co'' ''hunter22''
      (exampleApp\<lparr>db := exampleStore\<lparr>users := [ann\<lparr>u_password := ''$sesame99''\<rparr>, bob]\<rparr>\<rparr>)
     = (Inr (Json (Message ''Invalid email or password'') 400),
        exampleApp\<lparr>db := exampleStore\<lparr>users := [ann\<lparr>u_password := ''$sesame99''\<rparr>, bob]\<rparr>\<rparr>) \<and>
   fst (login exampleLib exampleEncode exampleEnv (\<lambda>_. False) 1700000000999 ''4f2c''
      ''a@b.co'' ''hunter22'' exampleApp)
     = Inr (Json (MessageData ''Successfully logged in''
              \<lparr>j_payload = \<lparr>userId = Some 1, firstName = ''Ann'', lastName = ''Lee'',
                            email = ''a@b.co'', exp = 1700003600\<rparr>,
               j_signed = ''a@b.co.1700003600'',
               j_signature = ''s3cret:a@b.co.1700003600''\<rparr> ''4f2c'') 200)"
proof -
  have k: "JWT_SECRET exampleEnv = Some ''s3cret''" by (simp add: exampleEnv_def)
  have n: "numberToString 1700003600 = ''1700003600''"
    by (simp add: numberToString_def natToDigits.simps digitChar_def)
  have h1: "''a@b.co'' \<notin> u_email ` set (users (db (exampleApp\<lparr>db := exampleStore\<lparr>users := [bob]\<rparr>\<rparr>)))"
    by (simp add: bob_def)
  have h2: "find (\<lambda>x. u_email x = ''a@b.co'')
              (users (db (exampleApp\<lparr>db := exampleStore\<lparr>users := [ann\<lparr>u_password := ''$sesame99''\<rparr>, bob]\<rparr>\<rparr>)))
            = Some (ann\<lparr>u_password := ''$sesame99''\<rparr>)"
    by (simp add: ann_def)
  have h3: "\<not> bcryptCompare exampleLib ''hunter22'' (u_password (ann\<lparr>u_password := ''$sesame99''\<rparr>))"
    by (simp add: exampleLib_def)
  have h4: "find (\<lambda>x. u_email x = ''a@b.co'') (users (db exampleApp)) = Some ann"
    by (simp add: exampleApp_def exampleStore_def ann_def)
  have h5: "bcryptCompare exampleLib ''hunter22'' (u_password ann)"
    by (simp add: exampleLib_def ann_def)
  have f: "\<not> (\<lambda>_. False) JwtSign" "\<not> (\<lambda>_. False) SaveRefreshToken" by simp_all
  note inst = login_failure_uniform [OF h1 h2 h3 h4 h5 k f,
      where enc = exampleEncode and now = 1700000000999 and uuid = "''4f2c''", unfolded Let_def]
  show ?thesis
    using inst [THEN conjunct1] inst [THEN conjunct2, THEN conjunct1]
      inst [THEN conjunct2, THEN conjunct2, THEN conjunct2]
    by (simp add: ann_def exampleEncode_def exampleLib_def n)
qed


section \<open>Registration\<close>

lemma register_released:
  "isReleased (snd (snd (register l enc e fails now uuid f ln em pw a)))"
  by (simp add: register_def release_def split: prod.splits sum.splits)

lemma register_in_transaction:
  assumes "\<not> fails Connect" "\<not> fails StartTransaction"
    and "fails ReqJson \<or> fails BcryptHash \<or> fails SaveUser \<or> em \<in> u_email ` set (users (db a))
         \<or> fails CommitTransaction"
  shows "(case register l enc e fails now uuid f ln em pw a of
            (r, a', qr') \<Rightarrow>
              r = Inl (if fails ReqJson then OpFailed ReqJson
                       else if fails BcryptHash then OpFailed BcryptHash
                       else if fails SaveUser then OpFailed SaveUser
                       else if em \<in> u_email ` set (users (db a))
                            then QueryFailedError ''ER_DUP_ENTRY''
                       else OpFailed CommitTransaction) \<and>
              r = fst (registerTry l enc e fails now uuid f ln em pw a createQueryRunner) \<and>
              users (db a') = users (db a) \<and> tasks (db a') = tasks (db a) \<and>
              refreshTokens (db a') = refreshTokens (db a) \<and>
              \<not> isTransactionActive qr' \<and> uncommitted qr' = [] \<and> isReleased qr')"
  using assms
  by (auto simp: register_def registerTry_def startTransaction_def saveUserInTransaction_def
      commitTransaction_def rollbackTransaction_def release_def createQueryRunner_def Let_def)

lemma register_token_failure:
  assumes "\<not> fails Connect" "\<not> fails StartTransaction" "\<not> fails ReqJson" "\<not> fails BcryptHash"
    "\<not> fails SaveUser" "em \<notin> u_email ` set (users (db a))" "\<not> fails CommitTransaction"
    and "fails JwtSign \<or> JWT_SECRET e = None \<or> fails SaveRefreshToken"
  shows "(case register l enc e fails now uuid f ln em pw a of
            (r, a', qr') \<Rightarrow>
              r = Inl TransactionNotStartedError \<and>
              users (db a') = users (db a) @
                [\<lparr>u_id = Some (userSeq (db a)), u_firstName = f, u_lastName = ln, u_email = em,
                  u_password = bcryptHash l pw 12, u_emailVerifiedAt = None\<rparr>] \<and>
              refreshTokens (db a') = refreshTokens (db a) \<and> isReleased qr')"
  using assms
  by (auto simp: register_def registerTry_def startTransaction_def saveUserInTransaction_def
      commitTransaction_def rollbackTransaction_def release_def createQueryRunner_def Let_def
      generateUserToken_def sign_def split: option.splits)

lemma register_success:
  assumes "\<not> fails Connect" "\<not> fails StartTransaction" "\<not> fails ReqJson" "\<not> fails BcryptHash"
    "\<not> fails SaveUser" "em \<notin> u_email ` set (users (db a))" "\<not> fails CommitTransaction"
    "\<not> fails JwtSign" "JWT_SECRET e = Some k" "\<not> fails SaveRefreshToken"
  shows "(case register l enc e fails now uuid f ln em pw a of
            (r, a', qr') \<Rightarrow>
              (let p = \<lparr>userId = Some (userSeq (db a)), firstName = f, lastName = ln,
                        email = em, exp = now div 1000 + 60 * 60\<rparr>
               in r = Inr (Json (MessageData ''Successfully registration user''
                       \<lparr>j_payload = p, j_signed = enc p, j_signature = jwtHs256 l k (enc p)\<rparr>
                       uuid) 200)) \<and>
              users (db a') = users (db a) @
                [\<lparr>u_id = Some (userSeq (db a)), u_firstName = f, u_lastName = ln, u_email = em,
                  u_password = bcryptHash l pw 12, u_emailVerifiedAt = None\<rparr>] \<and>
              isReleased qr')"
  using assms
  by (auto simp: register_def registerTry_def startTransaction_def saveUserInTransaction_def
      commitTransaction_def rollbackTransaction_def release_def createQueryRunner_def Let_def
      generateUserToken_def sign_def insertRefreshToken_def split: option.splits)

text \<open>
  C5. The steps of the registration handler between \<open>startTransaction\<close> and the
  end of \<open>commitTransaction\<close> are reading the body, hashing the password, saving
  the user and committing. When the connection and the start of the transaction succeed
  and one of those steps fails (the save also fails on an email that is already stored),
  the handler raises the error of the first failing step, which is the error its try
  block raised; the tables of users, tasks and refresh tokens are what they were; the
  transaction is closed with nothing left uncommitted; and the query runner is released.
  The commit comes before the tokens are issued: when everything up to the commit succeeds
  and issuing the tokens fails, the new user is in the table all the same and the request
  fails. The query runner is released at the end of every run of the handler.
\<close>

theorem register_atomic:
  "(\<not> fails Connect \<and> \<not> fails StartTransaction \<and>
    (fails ReqJson \<or> fails BcryptHash \<or> fails SaveUser \<or> em \<in> u_email ` set (users (db a))
      \<or> fails CommitTransaction) \<longrightarrow>
      (case register l enc e fails now uuid f ln em pw a of
         (r, a', qr') \<Rightarrow>
           r = Inl (if fails ReqJson then OpFailed ReqJson
                    else if fails BcryptHash then OpFailed BcryptHash
                    else if fails SaveUser then OpFailed SaveUser
                    else if em \<in> u_email ` set (users (db a))
                         then QueryFailedError ''ER_DUP_ENTRY''
                    else OpFailed CommitTransaction) \<and>
           r = fst (registerTry l enc e fails now uuid f ln em pw a createQueryRunner) \<and>
           users (db a') = users (db a) \<and> tasks (db a') = tasks (db a) \<and>
           refreshTokens (db a') = refreshTokens (db a) \<and>
           \<not> isTransactionActive qr' \<and> uncommitted qr' = [] \<and> isReleased qr')) \<and>
   (\<not> fails Connect \<and> \<not> fails StartTransaction \<and> \<not> fails ReqJson \<and> \<not> fails BcryptHash \<and>
    \<not> fails SaveUser \<and> em \<notin> u_email ` set (users (db a)) \<and> \<not> fails CommitTransaction \<and>
    (fails JwtSign \<or> JWT_SECRET e = None \<or> fails SaveRefreshToken) \<longrightarrow>
      (case register l enc e fails now uuid f ln em pw a of
         (r, a', qr') \<Rightarrow>
           r = Inl TransactionNotStartedError \<and>
           users (db a') = users (db a) @
             [\<lparr>u_id = Some (userSeq (db a)), u_firstName = f, u_lastName = ln, u_email = em,
               u_password = bcryptHash l pw 12, u_emailVerifiedAt = None\<rparr>] \<and>
           refreshTokens (db a') = refreshTokens (db a) \<and> isReleased qr')) \<and>
   isReleased (snd (snd (register l enc e fails now uuid f ln em pw a)))"
proof (intro conjI impI)
  show "isReleased (snd (snd (register l enc e fails now uuid f ln em pw a)))"
    by (rule register_released)
qed (elim conjE, rule register_in_transaction register_token_failure; assumption)+

text \<open>A registration whose save fails, and one whose refresh token cannot be saved.\<close>

theorem register_atomic_witness:
  "register exampleLib exampleEncode exampleEnv (\<lambda>x. x = SaveUser) 1700000000999 ''4f2c''
      ''Cy'' ''Orr'' ''c@d.net'' ''opensesame'' exampleApp
     = (Inl (OpFailed SaveUser), exampleApp,
        \<lparr>isTransactionActive = False, isReleased = True, uncommitted = []\<rparr>) \<and>
   register exampleLib exampleEncode exampleEnv (\<lambda>x. x = SaveRefreshToken) 1700000000999
      ''4f2c'' ''Cy'' ''Orr'' ''c@d.net'' ''opensesame'' exampleApp
     = (Inl TransactionNotStartedError,
        exampleApp\<lparr>db := exampleStore
          \<lparr>users := [ann, bob, \<lparr>u_id = Some 3, u_firstName = ''Cy'', u_lastName = ''Orr'',
                                u_email = ''c@d.net'', u_password = ''$opensesame'',
                                u_emailVerifiedAt = None\<rparr>],
           userSeq := 4\<rparr>\<rparr>,
        \<lparr>isTransactionActive = False, isReleased = True, uncommitted = []\<rparr>)"
proof -
  have "users (db exampleApp) = [ann, bob]"
    by (simp add: exampleApp_def exampleStore_def)
  then have fresh: "''c@d.net'' \<notin> u_email ` set (users (db exampleApp))"
    by (simp add: ann_def bob_def)
  note one = register_atomic [THEN conjunct1, rule_format,
      where fails = "\<lambda>x. x = SaveUser" and em = "''c@d.net''" and a = exampleApp
        and l = exampleLib and enc = exampleEncode and e = exampleEnv and now = 1700000000999
        and uuid = "''4f2c''" and f = "''Cy''" and ln = "''Orr''" and pw = "''opensesame''"]
  note two = register_atomic [THEN conjunct2, THEN conjunct1, rule_format,
      where fails = "\<lambda>x. x = SaveRefreshToken" and em = "''c@d.net''" and a = exampleApp
        and l = exampleLib and enc = exampleEncode and e = exampleEnv and now = 1700000000999
        and uuid = "''4f2c''" and f = "''Cy''" and ln = "''Orr''" and pw = "''opensesame''"]
  have r1: "fst (register exampleLib exampleEncode exampleEnv (\<lambda>x. x = SaveUser) 1700000000999 ''4f2c''
      ''Cy'' ''Orr'' ''c@d.net'' ''opensesame'' exampleApp) = Inl (OpFailed SaveUser)"
    using one by (auto split: prod.splits)
  have r2: "fst (register exampleLib exampleEncode exampleEnv (\<lambda>x. x = SaveRefreshToken) 1700000000999
      ''4f2c'' ''Cy'' ''Orr'' ''c@d.net'' ''opensesame'' exampleApp) = Inl TransactionNotStartedError"
    using two fresh by (auto split: prod.splits)
  have s1: "snd (register exampleLib exampleEncode exampleEnv (\<lambda>x. x = SaveUser) 1700000000999 ''4f2c''
      ''Cy'' ''Orr'' ''c@d.net'' ''opensesame'' exampleApp)
     = (exampleApp, \<lparr>isTransactionActive = False, isReleased = True, uncommitted = []\<rparr>)"
    by (simp add: register_def registerTry_def startTransaction_def saveUserInTransaction_def
      rollbackTransaction_def release_def createQueryRunner_def Let_def)
  have s2: "snd (register exampleLib exampleEncode exampleEnv (\<lambda>x. x = SaveRefreshToken) 1700000000999
      ''4f2c'' ''Cy'' ''Orr'' ''c@d.net'' ''opensesame'' exampleApp)
     = (exampleApp\<lparr>db := exampleStore
          \<lparr>users := [ann, bob, \<lparr>u_id = Some 3, u_firstName = ''Cy'', u_lastName = ''Orr'',
                                u_email = ''c@d.net'', u_password = ''$opensesame'',
                                u_emailVerifiedAt = None\<rparr>],
           userSeq := 4\<rparr>\<rparr>,
        \<lparr>isTransactionActive = False, isReleased = True, uncommitted = []\<rparr>)"
    using fresh
    by (simp add: register_def registerTry_def startTransaction_def saveUserInTransaction_def
      commitTransaction_def rollbackTransaction_def release_def createQueryRunner_def Let_def
      generateUserToken_def sign_def exampleEnv_def exampleApp_def exampleStore_def exampleLib_def)
  show ?thesis
    using r1 r2 s1 s2 by (metis prod.collapse)
qed


section \<open>Tasks and their owners\<close>

lemma findTasks_owned:
  "findTasks s q = Inr found \<Longrightarrow>
   set found \<subseteq> {r \<in> set (tasks s). ownedBy (fo_user q) r}"
  by (auto simp: findTasks_def split: option.splits dest!: in_set_takeD in_set_dropD)

lemma authentication_known:
  assumes "verify l now token (JWT_SECRET e) = Inr p"
  shows "authentication l e now (Some token) next a =
           next (setUser (find (\<lambda>x. u_email x = email p) (users (db a))) a)"
  using assms by (simp add: authentication_def findOneByUser_email)

text \<open>
  C6. A request to GET /tasks carries a token that verifies, and the user A is the one the
  middleware finds by the email claim of the token. Whatever the values of
  \<open>per_page\<close> and \<open>page\<close>, when the route answers with a list of tasks,
  every task in the list is a task of the table whose owner is A, and no task in the list
  is owned by a user B with another id.
\<close>

theorem tasksGet_only_own_tasks:
  assumes "verify l now token (JWT_SECRET e) = Inr p"
    and "find (\<lambda>x. u_email x = email p) (users (db a)) = Some A"
    and "tasksGetRoute l e now (Some token) per_page page a
           = (Inr (Json (StatusTasks st found) code), a')"
  shows "(\<forall>t \<in> set found. t \<in> set (tasks (db a)) \<and> t_user t = u_id A) \<and>
         (\<forall>B. u_id B \<noteq> u_id A \<longrightarrow> (\<forall>t \<in> set found. t_user t \<noteq> u_id B))"
proof -
  have "tasksGet per_page page (setUser (Some A) a) = (Inr (Json (StatusTasks st found) code), a')"
    using assms by (simp add: tasksGetRoute_def authentication_known)
  then have "findTasks (db a) (listQuery per_page page (Some A)) = Inr found"
    by (auto simp: tasksGet_def getUser_def setUser_def Let_def split: sum.splits)
  from findTasks_owned [OF this]
  have "\<forall>t \<in> set found. t \<in> set (tasks (db a)) \<and> t_user t = u_id A"
    by (auto simp: listQuery_def ownedBy_def)
  then show ?thesis by auto
qed

lemma verify_annToken:
  "verify exampleLib 1700000001000 (Some annToken) (JWT_SECRET exampleEnv) = Inr (j_payload annToken)"
  by (simp add: verify_def annToken_def exampleEnv_def exampleLib_def)

lemma parseInt_examples:
  "parseInt (Some ''5'') = Num 5" "parseInt (Some ''1'') = Num 1" "parseInt (Some ''2'') = Num 2"
  "parseInt None = NaN" "parseInt (Some ''ten'') = NaN"
  by (simp_all add: parseInt_def parseIntString_def templateString_def isWhiteSpace_def
      radixDigit_def digitValue_def roundDouble_safe Let_def)

text \<open>Ann lists her tasks; the task of Bob is in the table and not in the list.\<close>

theorem tasksGet_only_own_tasks_witness:
  "tasksGetRoute exampleLib exampleEnv 1700000001000 (Some (Some annToken)) (Some ''5'')
     (Some ''1'') exampleApp
     = (Inr (Json (StatusTasks ''success'' [annTask]) 200), exampleApp\<lparr>currentUser := Some ann\<rparr>) \<and>
   annTask \<in> set (tasks (db exampleApp)) \<and> t_user annTask = u_id ann \<and>
   t_user bobTask = u_id bob \<and> u_id bob \<noteq> u_id ann \<and> bobTask \<notin> set [annTask]"
proof -
  have f: "find (\<lambda>x. u_email x = email (j_payload annToken)) (users (db exampleApp)) = Some ann"
    by (simp add: annToken_def exampleApp_def exampleStore_def ann_def)
  have r: "tasksGetRoute exampleLib exampleEnv 1700000001000 (Some (Some annToken))
     (Some ''5'') (Some ''1'') exampleApp
     = (Inr (Json (StatusTasks ''success'' [annTask]) 200), exampleApp\<lparr>currentUser := Some ann\<rparr>)"
    unfolding tasksGetRoute_def authentication_known [OF verify_annToken] f
    by (simp add: tasksGet_def getUser_def setUser_def listQuery_def parseInt_examples
        numberOr_def numberTimes_def roundDouble_safe limitValue_safe findTasks_def ownedBy_def
        exampleApp_def exampleStore_def annTask_def bobTask_def ann_def)
  from tasksGet_only_own_tasks [OF verify_annToken f r]
  show ?thesis using r by (auto simp: bobTask_def annTask_def bob_def ann_def)
qed

text \<open>
  C7. The current user is u and the id parameter reads as the number i. On a store that
  has a task with id i, every one of them owned by someone else, and on a store that has
  no task with id i, the lookup of the two handlers finds nothing, DELETE answers 400
  "Task not found", PUT throws the error "Task i not found", the client receives the same
  response in both cases, and neither store is changed.
\<close>

theorem foreign_task_like_missing_task:
  assumes "getUser a1 = Some u" "getUser a2 = Some u"
    and "parseInt (Some idParam) = Num i"
    and "\<exists>r \<in> set (tasks (db a1)). t_id r = Some i"
    and "\<forall>r \<in> set (tasks (db a1)). t_id r = Some i \<longrightarrow> t_user r \<noteq> u_id u"
    and "\<forall>r \<in> set (tasks (db a2)). t_id r \<noteq> Some i"
  shows "findOneByTask (db a1) (Num i) (Some u) = Inr None \<and>
         findOneByTask (db a2) (Num i) (Some u) = Inr None \<and>
         tasksDelete idParam a1 = (Inr (Json (Message ''Task not found'') 400), a1) \<and>
         tasksDelete idParam a2 = (Inr (Json (Message ''Task not found'') 400), a2) \<and>
         tasksPut now idParam title description completed a1
           = (Inl (JsError (''Task '' @ numberTemplate (Num i) @ '' not found'')), a1) \<and>
         tasksPut now idParam title description completed a2
           = (Inl (JsError (''Task '' @ numberTemplate (Num i) @ '' not found'')), a2) \<and>
         fst (respond (tasksDelete idParam a1)) = fst (respond (tasksDelete idParam a2)) \<and>
         fst (respond (tasksPut now idParam title description completed a1))
           = fst (respond (tasksPut now idParam title description completed a2))"
proof -
  have n1: "findOneByTask (db a1) (Num i) (Some u) = Inr None"
    using assms(5) by (auto simp: findOneByTask_def find_None_iff taskMatches_def ownedBy_def)
  have n2: "findOneByTask (db a2) (Num i) (Some u) = Inr None"
    using assms(6) by (auto simp: findOneByTask_def find_None_iff taskMatches_def ownedBy_def)
  show ?thesis
    using n1 n2 assms(1-3)
    by (simp add: tasksDelete_def tasksPut_def respond_def Let_def)
qed

text \<open>Ann asks for task 2, which is Bob's, and for task 2 on a store without it.\<close>

theorem foreign_task_like_missing_task_witness:
  "tasksDelete ''2'' (exampleApp\<lparr>currentUser := Some ann\<rparr>)
     = (Inr (Json (Message ''Task not found'') 400), exampleApp\<lparr>currentUser := Some ann\<rparr>) \<and>
   tasksDelete ''2'' (exampleApp\<lparr>currentUser := Some ann, db := exampleStore\<lparr>tasks := [annTask]\<rparr>\<rparr>)
     = (Inr (Json (Message ''Task not found'') 400),
        exampleApp\<lparr>currentUser := Some ann, db := exampleStore\<lparr>tasks := [annTask]\<rparr>\<rparr>) \<and>
   tasksPut 1700000001000 ''2'' ''Read'' ''it all'' (Some True) (exampleApp\<lparr>currentUser := Some ann\<rparr>)
     = (Inl (JsError ''Task 2 not found''), exampleApp\<lparr>currentUser := Some ann\<rparr>) \<and>
   tasksPut 1700000001000 ''2'' ''Read'' ''it all'' (Some True)
       (exampleApp\<lparr>currentUser := Some ann, db := exampleStore\<lparr>tasks := [annTask]\<rparr>\<rparr>)
     = (Inl (JsError ''Task 2 not found''),
        exampleApp\<lparr>currentUser := Some ann, db := exampleStore\<lparr>tasks := [annTask]\<rparr>\<rparr>)"
proof -
  have n: "numberTemplate (Num 2) = ''2''"
    by (simp add: numberTemplate_safe numberToString_def natToDigits.simps digitChar_def)
  have h1: "getUser (exampleApp\<lparr>currentUser := Some ann\<rparr>) = Some ann"
    and h2: "getUser (exampleApp\<lparr>currentUser := Some ann, db := exampleStore\<lparr>tasks := [annTask]\<rparr>\<rparr>)
             = Some ann"
    by (simp_all add: getUser_def)
  have h4: "\<exists>r \<in> set (tasks (db (exampleApp\<lparr>currentUser := Some ann\<rparr>))). t_id r = Some 2"
    by (simp add: exampleApp_def exampleStore_def bobTask_def)
  have h5: "\<forall>r \<in> set (tasks (db (exampleApp\<lparr>currentUser := Some ann\<rparr>))).
              t_id r = Some 2 \<longrightarrow> t_user r \<noteq> u_id ann"
    by (simp add: exampleApp_def exampleStore_def bobTask_def annTask_def ann_def)
  have h6: "\<forall>r \<in> set (tasks (db (exampleApp\<lparr>currentUser := Some ann,
              db := exampleStore\<lparr>tasks := [annTask]\<rparr>\<rparr>))). t_id r \<noteq> Some 2"
    by (simp add: annTask_def)
  from foreign_task_like_missing_task [OF h1 h2 parseInt_examples(3) h4 h5 h6,
      of 1700000001000 "''Read''" "''it all''" "Some True"]
  show ?thesis by (simp add: n)
qed


section \<open>Pagination\<close>








text \<open>
  Beyond \<open>2^53\<close> a page size is rounded to a double, and a page size that has become
  Infinity makes the number of skipped records NaN on page 1; the database refuses both.
\<close>

lemma parseInt_rounds: "parseInt (Some ''9007199254740993'') = Num 9007199254740992"
proof -
  have b: "bitLength 9007199254740993 = 54"
    by (simp add: bitLength.simps)
  have "roundDouble 9007199254740993 = Num 9007199254740992"
    by (simp add: roundDouble_def roundMagnitude_def b Let_def)
  then show ?thesis
    by (simp add: parseInt_def parseIntString_def templateString_def isWhiteSpace_def
        radixDigit_def digitValue_def Let_def)
qed

lemma infinite_page_size:
  "numberTimes (numberMinus (Num 1) (Num 1)) PosInfinity = NaN"
  "limitValue PosInfinity = None" "limitValue NaN = None"
  by (simp_all add: numberTimes_def numberSign_def roundDouble_safe limitValue_def)




section \<open>A token whose user is not stored\<close>

lemma verify_strangerToken:
  "verify exampleLib 1700000001000 (Some strangerToken) (JWT_SECRET exampleEnv)
     = Inr (j_payload strangerToken)"
  by (simp add: verify_def strangerToken_def exampleEnv_def exampleLib_def)

text \<open>
  C9. A request carries a token that verifies (signature and expiry), and no stored user
  has the email of its claims. The middleware does not reject the request: it sets the
  current user to null and runs the rest of the route. For POST /tasks with a body that
  passes the schema, the rest of the route stores a new task whose owner is null and the
  client receives status 200 with that task.
\<close>

theorem unknown_user_token_is_served:
  assumes "verify l now token (JWT_SECRET e) = Inr p"
    and "email p \<notin> u_email ` set (users (db a))"
  shows "authentication l e now (Some token) next a = next (setUser None a) \<and>
         (zodObject l postShape data \<longrightarrow>
            (let created = \<lparr>t_id = Some (taskSeq (db a)), t_title = strField data ''title'',
                            t_description = strField data ''description'',
                            t_completed = Some False, t_user = None, t_createdAt = now,
                            t_updatedAt = None\<rparr>;
                 after = a\<lparr>currentUser := None,
                           db := (db a)\<lparr>tasks := tasks (db a) @ [created],
                                         taskSeq := taskSeq (db a) + 1\<rparr>\<rparr>
             in tasksPostRoute l e now (Some token) (Some data) a
                  = (Inr (Json (StatusTask ''success'' created) 200), after) \<and>
                respond (tasksPostRoute l e now (Some token) (Some data) a)
                  = (Json (StatusTask ''success'' created) 200, after)))"
proof -
  have none: "find (\<lambda>x. u_email x = email p) (users (db a)) = None"
    using assms(2) by (auto simp: find_None_iff image_iff)
  have auth: "authentication l e now (Some token) cont a = cont (setUser None a)" for cont
    by (simp add: authentication_known [OF assms(1)] none)
  show ?thesis
    unfolding tasksPostRoute_def auth
    by (simp add: validate_def tasksPost_def getUser_def setUser_def ownerId_def saveTask_def
        respond_def Let_def)
qed

text \<open>A token for z@y.xx, an address that no stored user has.\<close>

theorem unknown_user_token_is_served_witness:
  "respond (tasksPostRoute exampleLib exampleEnv 1700000001000 (Some (Some strangerToken))
      (Some (JObj [(''title'', JStr ''Plan''), (''description'', JStr ''the trip'')])) exampleApp)
   = (Json (StatusTask ''success''
        \<lparr>t_id = Some 3, t_title = ''Plan'', t_description = ''the trip'', t_completed = Some False,
         t_user = None, t_createdAt = 1700000001000, t_updatedAt = None\<rparr>) 200,
      exampleApp\<lparr>db := exampleStore
        \<lparr>tasks := [annTask, bobTask,
           \<lparr>t_id = Some 3, t_title = ''Plan'', t_description = ''the trip'',
            t_completed = Some False, t_user = None, t_createdAt = 1700000001000,
            t_updatedAt = None\<rparr>],
         taskSeq := 4\<rparr>\<rparr>)"
proof -
  have h: "email (j_payload strangerToken) \<notin> u_email ` set (users (db exampleApp))"
    by (simp add: strangerToken_def exampleApp_def exampleStore_def ann_def bob_def)
  have v: "zodObject exampleLib postShape
             (JObj [(''title'', JStr ''Plan''), (''description'', JStr ''the trip'')])"
    by (simp add: zodObject_def postShape_def field_def)
  from unknown_user_token_is_served [OF verify_strangerToken h, THEN conjunct2, rule_format, OF v]
  show ?thesis
    by (simp add: Let_def strField_def field_def exampleApp_def exampleStore_def respond_def)
qed


section \<open>Updating a task\<close>

lemma findOneByTask_Some:
  assumes "findOneByTask s taskId u = Inr (Some found)"
  shows "found \<in> set (tasks s)" "\<exists>i. taskId = Num i \<and> taskMatches i u found"
    "t_id found \<noteq> None"
proof -
  from assms obtain i where i: "taskId = Num i" "find (taskMatches i u) (tasks s) = Some found"
    by (cases taskId) (auto simp: findOneByTask_def)
  then show "found \<in> set (tasks s)" "\<exists>i. taskId = Num i \<and> taskMatches i u found"
    by (auto simp: find_Some_iff)
  then show "t_id found \<noteq> None"
    by (auto simp: taskMatches_def)
qed

lemma distinct_ids_same_row:
  assumes "distinct (map t_id rows)" "x \<in> set rows" "y \<in> set rows" "t_id x = t_id y"
  shows "x = y"
  using assms by (meson distinct_map inj_onD)

lemma find_map_replace:
  assumes "find P rows = Some x" "P y" "\<forall>r \<in> set rows. r \<noteq> x \<longrightarrow> g r = r" "g x = y"
  shows "find P (map g rows) = Some y"
  using assms
proof (induction rows)
  case Nil
  then show ?case by simp
next
  case (Cons r rows)
  show ?case
  proof (cases "P r")
    case True
    then have "r = x" using Cons.prems(1) by simp
    then show ?thesis using Cons.prems by simp
  next
    case False
    then have fx: "find P rows = Some x" using Cons.prems(1) by simp
    have "r \<noteq> x" using False fx by (auto simp: find_Some_iff)
    then have "g r = r" using Cons.prems(3) by simp
    moreover have "find P (map g rows) = Some y"
      using Cons.IH [OF fx Cons.prems(2) _ Cons.prems(4)] Cons.prems(3) by simp
    ultimately show ?thesis using False by simp
  qed
qed

lemma tasksPutRoute_body:
  assumes "verify l now token (JWT_SECRET e) = Inr p" "zodObject l putShape data"
  shows "tasksPutRoute l e now (Some token) idParam (Some data) a =
           tasksPut now idParam (strField data ''title'') (strField data ''description'')
             (boolField data ''completed'')
             (setUser (find (\<lambda>x. u_email x = email p) (users (db a))) a)"
  using assms by (simp add: tasksPutRoute_def authentication_known validate_def)

text \<open>
  C10, as the code has it. PUT /tasks/:id finds a task of the current user, and the ids of
  the table are distinct. The handler assigns the \<open>completed\<close> of the body to the
  task whatever the task held before, and the response carries the task so edited: with a
  body that has no \<open>completed\<close> (the schema accepts it, see the counterexample
  below) the task of the response has \<open>completed\<close> undefined. The row of the
  table takes the title, the description and the update time of the edited task; its
  \<open>completed\<close> is the value of the body when there is one and the value the row
  had before when the body has none, because save skips an undefined column.
\<close>

theorem tasksPut_completed:
  assumes "findOneByTask (db a) (parseInt (Some idParam)) (getUser a) = Inr (Some found)"
    and "distinct (map t_id (tasks (db a)))"
  shows "(let edited = found\<lparr>t_title := title, t_description := description,
                            t_completed := completed, t_updatedAt := Some now\<rparr>;
              stored = edited\<lparr>t_completed :=
                         (case completed of None \<Rightarrow> t_completed found | Some b \<Rightarrow> Some b)\<rparr>;
              after = a\<lparr>db := (db a)\<lparr>tasks :=
                         map (\<lambda>r. if t_id r = t_id found then stored else r) (tasks (db a))\<rparr>\<rparr>
          in tasksPut now idParam title description completed a
               = (Inr (Json (StatusTask ''success'' edited) 200), after) \<and>
             findOneByTask (db after) (parseInt (Some idParam)) (getUser a)
               = Inr (Some stored))"
proof -
  define edited where "edited = found\<lparr>t_title := title, t_description := description,
                            t_completed := completed, t_updatedAt := Some now\<rparr>"
  define stored where "stored = edited\<lparr>t_completed :=
                         (case completed of None \<Rightarrow> t_completed found | Some b \<Rightarrow> Some b)\<rparr>"
  define g where "g = (\<lambda>r. if t_id r = t_id found then stored else r)"
  note f = findOneByTask_Some [OF assms(1)]
  have same: "r = found" if "r \<in> set (tasks (db a))" "t_id r = t_id found" for r
    using distinct_ids_same_row [OF assms(2) that(1) f(1) that(2)] .
  have upd: "map (\<lambda>r. if t_id r = t_id edited then mergeTask r edited else r) (tasks (db a))
             = map g (tasks (db a))"
  proof (rule map_cong [OF refl])
    fix r assume r: "r \<in> set (tasks (db a))"
    show "(if t_id r = t_id edited then mergeTask r edited else r) = g r"
    proof (cases "t_id r = t_id found")
      case True
      then have "r = found" using same r by simp
      then show ?thesis
        by (simp add: g_def stored_def edited_def mergeTask_def)
    next
      case False
      then show ?thesis by (simp add: g_def edited_def)
    qed
  qed
  have ex: "t_id edited \<noteq> None \<and> (\<exists>r \<in> set (tasks (db a)). t_id r = t_id edited)"
    using f by (auto simp: edited_def)
  have save: "saveTask edited (db a) = (edited, (db a)\<lparr>tasks := map g (tasks (db a))\<rparr>)"
    using ex upd by (simp add: saveTask_def)
  have put: "tasksPut now idParam title description completed a
               = (Inr (Json (StatusTask ''success'' edited) 200),
                  a\<lparr>db := (db a)\<lparr>tasks := map g (tasks (db a))\<rparr>\<rparr>)"
    using assms(1) save by (simp add: tasksPut_def Let_def edited_def)
  from f(2) obtain i where i: "parseInt (Some idParam) = Num i"
    "taskMatches i (getUser a) found" by blast
  have m: "taskMatches i (getUser a) stored"
    using i(2) by (auto simp: taskMatches_def ownedBy_def stored_def edited_def split: option.splits)
  have "find (taskMatches i (getUser a)) (map g (tasks (db a))) = Some stored"
  proof (rule find_map_replace)
    show "find (taskMatches i (getUser a)) (tasks (db a)) = Some found"
      using assms(1) i(1) by (simp add: findOneByTask_def)
    show "taskMatches i (getUser a) stored" by (rule m)
    show "\<forall>r\<in>set (tasks (db a)). r \<noteq> found \<longrightarrow> g r = r"
      using same by (auto simp: g_def)
    show "g found = stored" by (simp add: g_def)
  qed
  then have again: "findOneByTask (db (a\<lparr>db := (db a)\<lparr>tasks := map g (tasks (db a))\<rparr>\<rparr>))
                      (parseInt (Some idParam)) (getUser a) = Inr (Some stored)"
    by (simp add: findOneByTask_def i(1))
  show ?thesis
    unfolding Let_def edited_def [symmetric] stored_def [symmetric] g_def [symmetric]
    using put again by simp
qed

text \<open>Ann edits her completed task with a body that has no \<open>completed\<close>.\<close>

theorem tasksPut_completed_witness:
  "tasksPut 1700000001000 ''1'' ''Write'' ''more'' None (exampleApp\<lparr>currentUser := Some ann\<rparr>)
     = (Inr (Json (StatusTask ''success''
               (annTask\<lparr>t_description := ''more'', t_completed := None,
                         t_updatedAt := Some 1700000001000\<rparr>)) 200),
        exampleApp\<lparr>currentUser := Some ann,
          db := exampleStore\<lparr>tasks :=
            [annTask\<lparr>t_description := ''more'', t_updatedAt := Some 1700000001000\<rparr>, bobTask]\<rparr>\<rparr>)"
proof -
  have f: "findOneByTask (db (exampleApp\<lparr>currentUser := Some ann\<rparr>)) (parseInt (Some ''1''))
             (getUser (exampleApp\<lparr>currentUser := Some ann\<rparr>)) = Inr (Some annTask)"
    by (simp add: findOneByTask_def parseInt_examples getUser_def taskMatches_def ownedBy_def
        exampleApp_def exampleStore_def annTask_def ann_def)
  have d: "distinct (map t_id (tasks (db (exampleApp\<lparr>currentUser := Some ann\<rparr>))))"
    by (simp add: exampleApp_def exampleStore_def annTask_def bobTask_def)
  from tasksPut_completed [OF f d, where title = "''Write''" and description = "''more''"
      and completed = None and now = 1700000001000, unfolded Let_def, THEN conjunct1]
  show ?thesis
    by (simp add: exampleApp_def exampleStore_def annTask_def bobTask_def)
qed

text \<open>
  The claim as it is worded has the stored field set to undefined. Ann's task is
  completed; after a PUT whose body passes the schema and has no \<open>completed\<close>,
  the rows of the table hold the same two values of \<open>completed\<close> as before.
\<close>

theorem tasksPut_keeps_completed_counterexample:
  "t_completed annTask = Some True \<and>
   zodObject exampleLib putShape
     (JObj [(''title'', JStr ''Write''), (''description'', JStr ''more'')]) \<and>
   boolField (JObj [(''title'', JStr ''Write''), (''description'', JStr ''more'')]) ''completed''
     = None \<and>
   map t_completed
     (tasks (db (snd (tasksPut 1700000001000 ''1'' ''Write'' ''more'' None
                        (exampleApp\<lparr>currentUser := Some ann\<rparr>)))))
     = [Some True, Some False]"
  by (simp add: tasksPut_def findOneByTask_def parseInt_examples getUser_def taskMatches_def
      ownedBy_def saveTask_def mergeTask_def exampleApp_def exampleStore_def annTask_def
      bobTask_def ann_def zodObject_def putShape_def field_def boolField_def Let_def)


end
